theory Spec2Isabelle
  imports Main "HOL-Library.Sublist"
begin

section \<open>Exceptions, traces and computations\<close>

text \<open>
  The seven cancellation exceptions of fastai, used by the notebooks as
  \<^verbatim>\<open>CancelFitException\<close>, ..., \<^verbatim>\<open>CancelStepException\<close>.
\<close>

datatype cancel_kind =
    CancelFitException
  | CancelEpochException
  | CancelTrainException
  | CancelValidException
  | CancelBatchException
  | CancelBackwardException
  | CancelStepException

text \<open>
  What a Python \<^verbatim>\<open>raise\<close> can throw.  \<open>Cancel k\<close> is an instance of one of the seven
  cancellation classes.  \<open>PyException cls args\<close> is an instance of any other class deriving
  from \<^verbatim>\<open>Exception\<close>, with its class name and its \<^verbatim>\<open>args\<close> tuple (each
  argument as the string that an f-string prints).  \<open>PyBaseException cls args\<close> is an
  instance of a class deriving from \<^verbatim>\<open>BaseException\<close> only (\<^verbatim>\<open>KeyboardInterrupt\<close>,
  \<^verbatim>\<open>SystemExit\<close>, \<^verbatim>\<open>GeneratorExit\<close>), which \<^verbatim>\<open>except Exception\<close> does not catch.
\<close>

datatype exn =
    Cancel cancel_kind
  | PyException string "string list"
  | PyBaseException string "string list"

text \<open>
  Every computation returns, next to the state and the pending exception, the list of
  things it did, in order: \<open>Dispatch ev\<close> when the learner is called with an event name,
  \<open>Invoke c ev\<close> when the method \<open>ev\<close> of the callback object \<open>c\<close> is called,
  \<open>Ext f\<close> when a collaborator outside the learner (model, loss, optimizer, device
  transfer, clean-up) is called, and \<open>Raised e\<close> when such a method or collaborator raises.
  The trace is an observation of the run; no code reads it.
\<close>

datatype item =
    Dispatch string
  | Invoke nat string
  | Ext string
  | Raised exn

type_synonym 's comp = "'s \<Rightarrow> item list \<times> 's \<times> exn option"

datatype 'v outcome = Returns 'v | Raises exn

definition noop :: "'s comp" where
  "noop s = ([], s, None)"

definition assign :: "('s \<Rightarrow> 's) \<Rightarrow> 's comp" where
  "assign f s = ([], f s, None)"

definition prepend :: "item list \<Rightarrow> item list \<times> 's \<times> exn option \<Rightarrow> item list \<times> 's \<times> exn option" where
  "prepend t r = (case r of (t', s', e) \<Rightarrow> (t @ t', s', e))"

text \<open>Two statements in sequence: the second runs only when the first raised nothing.\<close>

definition seq :: "'s comp \<Rightarrow> 's comp \<Rightarrow> 's comp" where
  "seq c1 c2 s =
     (case c1 s of
        (t1, s1, None) \<Rightarrow> prepend t1 (c2 s1)
      | (t1, s1, Some e) \<Rightarrow> (t1, s1, Some e))"

text \<open>
  \<^verbatim>\<open>try: c  except ex: h\<close>, where the class (or tuple of classes) \<open>ex\<close> is given by the
  set of exceptions that are instances of it.
\<close>

definition try_except :: "'s comp \<Rightarrow> (exn \<Rightarrow> bool) \<Rightarrow> 's comp \<Rightarrow> 's comp" where
  "try_except c ex h s =
     (case c s of
        (t1, s1, None) \<Rightarrow> (t1, s1, None)
      | (t1, s1, Some e) \<Rightarrow> if ex e then prepend t1 (h s1) else (t1, s1, Some e))"

text \<open>\<^verbatim>\<open>for x in xs: body(x)\<close> over a list fixed when the loop starts.\<close>

fun for_each :: "'a list \<Rightarrow> ('a \<Rightarrow> 's comp) \<Rightarrow> 's comp" where
  "for_each [] body s = ([], s, None)"
| "for_each (x # xs) body s = seq (body x) (for_each xs body) s"

definition is_a :: "cancel_kind \<Rightarrow> exn \<Rightarrow> bool" where
  "is_a k e = (e = Cancel k)"

fun invoked :: "item list \<Rightarrow> nat list" where
  "invoked [] = []"
| "invoked (Invoke c ev # t) = c # invoked t"
| "invoked (_ # t) = invoked t"

section \<open>Callbacks and the learner\<close>

text \<open>
  A callback object (Callbacks notebook, \<^verbatim>\<open>class Callback\<close>): the class attributes
  \<^verbatim>\<open>order\<close>, \<^verbatim>\<open>learn\<close>, \<^verbatim>\<open>run\<close>, \<^verbatim>\<open>run_train\<close>, \<^verbatim>\<open>run_valid\<close>, the name of its class
  and of the classes it inherits from (for \<^verbatim>\<open>isinstance\<close>), and its \<^verbatim>\<open>name\<close>.
  There is one learner, so \<^verbatim>\<open>learn\<close> is either that learner (\<open>True\<close>) or \<^verbatim>\<open>None\<close>.
  \<open>default_attr\<close> is the class attribute \<^verbatim>\<open>_default\<close>, which names the attribute that
  \<^verbatim>\<open>GetAttr\<close> hands unknown reads to.  It is \<^verbatim>\<open>'default'\<close> in \<^verbatim>\<open>GetAttr\<close> itself; the
  \<^verbatim>\<open>Callback\<close> class of the Callbacks notebook does not set it, and the \<^verbatim>\<open>Callback\<close>
  class of fastai, which the Learner notebooks use, sets it to \<^verbatim>\<open>'learn'\<close>.
\<close>

record callback =
  cls_name :: string
  bases :: "string list"
  name :: string
  default_attr :: string
  order :: int
  learn :: bool
  run :: bool
  run_train :: bool
  run_valid :: bool

text \<open>
  The learner.  Callback objects live in the store \<open>objs\<close>, and \<open>cbs\<close> holds references
  to them in registration order, so that a method which changes an attribute of a
  callback is seen by every later read.  \<open>attrs\<close> are the attributes of the learner
  object that \<^verbatim>\<open>setattr(self, cb.name, cb)\<close> creates, and \<open>class_model_attrs\<close> are the
  names that a read on the learner finds elsewhere: on the \<^verbatim>\<open>Learner\<close> class or, through
  \<^verbatim>\<open>GetAttr\<close> with \<^verbatim>\<open>_default='model'\<close>, on the model.  The other attributes of the
  learner object are the fields below, and no callback is named like one of them.
  \<open>training\<close> is \<open>None\<close> while no
  \<^verbatim>\<open>training\<close> attribute can be found.  A batch is a tuple of tensors of the opaque
  type \<open>'t\<close>; \<open>ext\<close> is the state of the model, the loss function and the optimizer.
\<close>

record ('t, 'x) learner =
  cbs :: "nat list"
  objs :: "nat \<Rightarrow> callback"
  attrs :: "string \<rightharpoonup> nat"
  class_model_attrs :: "string list"
  next_ref :: nat
  training :: "bool option"
  n_epoch :: int
  epoch :: int
  n_iter :: nat
  iter :: nat
  dls_train :: "'t list list"
  dls_valid :: "'t list list"
  n_inp :: "int option"
  dl :: "'t list list"
  xb :: "'t list"
  yb :: "'t list"
  pred :: "'t option"
  loss_grad :: "'t option"
  loss :: "'t option"
  ext :: 'x

text \<open>
  What the notebooks import or leave out: the names on fastai's \<^verbatim>\<open>event\<close> class, the
  list \<^verbatim>\<open>_inner_loop\<close>, the methods of the callback classes (\<open>getcallable c ev\<close> is
  \<^verbatim>\<open>getcallable(cb, ev)\<close>, which is \<^verbatim>\<open>noop\<close> for a missing method), the constructors of the
  callback classes, and the collaborators.
\<close>

record ('t, 'x) env =
  events :: "string list"
  inner_loop :: "string list"
  getcallable :: "nat \<Rightarrow> string \<Rightarrow> ('t, 'x) learner \<Rightarrow> ('t, 'x) learner \<times> 't option outcome"
  construct :: "string \<Rightarrow> callback"
  model :: "'x \<Rightarrow> 't list \<Rightarrow> 'x \<times> (exn + 't)"
  loss_func :: "'x \<Rightarrow> 't option \<Rightarrow> 't list \<Rightarrow> 'x \<times> (exn + 't)"
  loss_backward :: "'x \<Rightarrow> 't \<Rightarrow> 'x \<times> exn option"
  opt_step :: "'x \<Rightarrow> 'x \<times> exn option"
  opt_zero_grad :: "'x \<Rightarrow> 'x \<times> exn option"
  to_device :: "'x \<Rightarrow> 't list \<Rightarrow> exn + 't list"
  fit_setup :: "('t, 'x) learner \<Rightarrow> ('t, 'x) learner \<times> exn option"
  end_cleanup :: "('t, 'x) learner \<Rightarrow> ('t, 'x) learner \<times> exn option"

subsection \<open>\<^verbatim>\<open>Callback.__call__\<close>\<close>

text \<open>
  \<^verbatim>\<open>getattr(self, 'training', d)\<close> on a callback.  No callback class of the notebooks
  has a \<^verbatim>\<open>training\<close> attribute of its own, so the read goes to \<^verbatim>\<open>GetAttr.__getattr__\<close>,
  which looks the name up on the attribute that \<^verbatim>\<open>_default\<close> names.  With
  \<^verbatim>\<open>_default = 'learn'\<close> that is the learner, when there is one; with the \<^verbatim>\<open>'default'\<close>
  of \<^verbatim>\<open>GetAttr\<close> it is an attribute no callback has.  Where nothing is found, \<open>d\<close> is
  the answer.
\<close>

definition getattr_training :: "callback \<Rightarrow> ('t, 'x) learner \<Rightarrow> bool \<Rightarrow> bool" where
  "getattr_training self s d =
     (if default_attr self = ''learn'' \<and> learn self
      then (case training s of Some b \<Rightarrow> b | None \<Rightarrow> d) else d)"

text \<open>
  Modelled from the spec: \<^verbatim>\<open>modify_exception\<close> is fastcore's and is not in the
  repository.  The handler error is "wrapped with contextual information"; called with
  \<^verbatim>\<open>replace=True\<close> it puts the message in place of the exception's \<^verbatim>\<open>args\<close> and returns
  the same exception object.
\<close>

fun modify_exception :: "exn \<Rightarrow> string \<Rightarrow> exn" where
  "modify_exception (PyException cls args) msg = PyException cls [msg]"
| "modify_exception (PyBaseException cls args) msg = PyBaseException cls [msg]"
| "modify_exception (Cancel k) msg = Cancel k"

definition context_msg :: "string \<Rightarrow> string \<Rightarrow> string \<Rightarrow> string" where
  "context_msg cls event_name arg0 =
     ''Exception occured in `'' @ cls @ ''` when calling event `'' @ event_name @ ''`:''
       @ [CHR 0x0A, CHR 0x09] @ arg0"

text \<open>
  The two \<^verbatim>\<open>except\<close> clauses around the method call.  The first re-raises the seven
  cancellation classes.  The second catches \<^verbatim>\<open>Exception\<close> only; building its message
  reads \<^verbatim>\<open>e.args[0]\<close>, which raises \<^verbatim>\<open>IndexError\<close> when \<^verbatim>\<open>args\<close> is empty.
\<close>

fun except_clauses :: "string \<Rightarrow> string \<Rightarrow> exn \<Rightarrow> exn" where
  "except_clauses cls event_name (Cancel k) = Cancel k"
| "except_clauses cls event_name (PyBaseException c args) = PyBaseException c args"
| "except_clauses cls event_name (PyException c []) =
     PyException ''IndexError'' [''tuple index out of range'']"
| "except_clauses cls event_name (PyException c (a # args)) =
     modify_exception (PyException c (a # args)) (context_msg cls event_name a)"

definition set_run_True :: "nat \<Rightarrow> ('t, 'x) learner \<Rightarrow> ('t, 'x) learner" where
  "set_run_True c s = s\<lparr>objs := (objs s)(c := (objs s c)\<lparr>run := True\<rparr>)\<rparr>"

definition reset_run :: "nat \<Rightarrow> string \<Rightarrow> ('t, 'x) learner \<Rightarrow> ('t, 'x) learner" where
  "reset_run c event_name s = (if event_name = ''after_fit'' then set_run_True c s else s)"

definition gate :: "('t, 'x) env \<Rightarrow> callback \<Rightarrow> string \<Rightarrow> ('t, 'x) learner \<Rightarrow> bool" where
  "gate E self event_name s =
     (event_name \<notin> set (inner_loop E)
      \<or> (run_train self \<and> getattr_training self s True)
      \<or> (run_valid self \<and> \<not> getattr_training self s False))"

text \<open>
  \<^verbatim>\<open>Callback.__call__\<close> of the Callbacks notebook, for the callback object \<open>c\<close>.
  \<open>gate\<close> is its local \<^verbatim>\<open>_run\<close>.
\<close>

definition Callback_call ::
  "('t, 'x) env \<Rightarrow> nat \<Rightarrow> string \<Rightarrow> ('t, 'x) learner
     \<Rightarrow> item list \<times> ('t, 'x) learner \<times> 't option outcome" where
  "Callback_call E c event_name s =
     (if run (objs s c) \<and> gate E (objs s c) event_name s then
        (case getcallable E c event_name s of
           (s1, Raises e) \<Rightarrow>
             ([Invoke c event_name, Raised e], s1,
              Raises (except_clauses (cls_name (objs s1 c)) event_name e))
         | (s1, Returns res) \<Rightarrow>
             ([Invoke c event_name], reset_run c event_name s1, Returns res))
      else ([], reset_run c event_name s, Returns None))"

text \<open>
  \<^verbatim>\<open>Callback.__call__\<close> as the Learner Part 2 notebook shows it.  With \<^verbatim>\<open>self.run\<close>
  false, \<^verbatim>\<open>return res\<close> reads a local that was never assigned.
\<close>

definition unbound_res :: exn where
  "unbound_res =
     PyException ''UnboundLocalError''
       [''local variable '' @ [CHR 0x27] @ ''res'' @ [CHR 0x27] @ '' referenced before assignment'']"

definition Callback_call_part2 ::
  "('t, 'x) env \<Rightarrow> nat \<Rightarrow> string \<Rightarrow> ('t, 'x) learner
     \<Rightarrow> item list \<times> ('t, 'x) learner \<times> 't option outcome" where
  "Callback_call_part2 E c event_name s =
     (if run (objs s c) then
        (case getcallable E c event_name s of
           (s1, Raises e) \<Rightarrow>
             ([Invoke c event_name, Raised e], s1,
              Raises (except_clauses (cls_name (objs s1 c)) event_name e))
         | (s1, Returns res) \<Rightarrow> ([Invoke c event_name], s1, Returns res))
      else ([], s, Raises unbound_res))"

subsection \<open>Calling the callbacks of a learner\<close>

text \<open>The loop \<^verbatim>\<open>for cb in self.cbs.sorted('order'): cb(event_name)\<close> over the sorted copy.\<close>

fun call_cbs :: "('t, 'x) env \<Rightarrow> nat list \<Rightarrow> string \<Rightarrow> ('t, 'x) learner comp" where
  "call_cbs E [] event_name s = ([], s, None)"
| "call_cbs E (c # cs) event_name s =
     (case Callback_call E c event_name s of
        (t, s1, Raises e) \<Rightarrow> (t, s1, Some e)
      | (t, s1, Returns res) \<Rightarrow> prepend t (call_cbs E cs event_name s1))"

definition call_one :: "('t, 'x) env \<Rightarrow> string \<Rightarrow> ('t, 'x) learner comp" where
  "call_one E event_name s =
     (if event_name \<notin> set (events E)
      then ([], s, Some (PyException ''Exception'' [''missing '' @ event_name]))
      else call_cbs E (sort_key (\<lambda>c. order (objs s c)) (cbs s)) event_name s)"

text \<open>\<^verbatim>\<open>Learner.__call__\<close> with one event name: \<^verbatim>\<open>L(event_name)\<close> is the one-element list.\<close>

definition learner_call :: "('t, 'x) env \<Rightarrow> string \<Rightarrow> ('t, 'x) learner comp" where
  "learner_call E event_name s = prepend [Dispatch event_name] (call_one E event_name s)"

text \<open>
  \<^verbatim>\<open>run_cbs\<close> of the MiniAI learner (Learner Part 2 notebook): \<open>ord c\<close> is the
  \<^verbatim>\<open>order\<close> attribute of \<open>c\<close> and \<open>meth c nm\<close> is \<^verbatim>\<open>getattr(cb, method_nm, None)\<close>.
\<close>

fun run_cbs_loop ::
  "(nat \<Rightarrow> string \<Rightarrow> ('s \<Rightarrow> 's \<times> exn option) option) \<Rightarrow> nat list \<Rightarrow> string \<Rightarrow> 's comp" where
  "run_cbs_loop meth [] method_nm s = ([], s, None)"
| "run_cbs_loop meth (c # cs) method_nm s =
     (case meth c method_nm of
        None \<Rightarrow> run_cbs_loop meth cs method_nm s
      | Some m \<Rightarrow>
          (case m s of
             (s1, Some e) \<Rightarrow> ([Invoke c method_nm, Raised e], s1, Some e)
           | (s1, None) \<Rightarrow> prepend [Invoke c method_nm] (run_cbs_loop meth cs method_nm s1)))"

definition run_cbs ::
  "(nat \<Rightarrow> int) \<Rightarrow> (nat \<Rightarrow> string \<Rightarrow> ('s \<Rightarrow> 's \<times> exn option) option) \<Rightarrow> nat list \<Rightarrow> string
     \<Rightarrow> 's comp" where
  "run_cbs ord meth cs method_nm s = run_cbs_loop meth (sort_key ord cs) method_nm s"

subsection \<open>\<^verbatim>\<open>_with_events\<close>\<close>

text \<open>
  \<^verbatim>\<open>_with_events(self, f, event_type, ex, final=noop)\<close>: the \<^verbatim>\<open>try\<close> block holds the
  \<^verbatim>\<open>before_\<close> call and \<open>f\<close>; the \<^verbatim>\<open>after_\<close> call and \<open>final\<close> follow the whole
  \<^verbatim>\<open>try\<close> statement.
\<close>

definition with_events ::
  "('t, 'x) env \<Rightarrow> ('t, 'x) learner comp \<Rightarrow> string \<Rightarrow> (exn \<Rightarrow> bool) \<Rightarrow> ('t, 'x) learner comp
     \<Rightarrow> ('t, 'x) learner comp" where
  "with_events E f event_type ex final =
     seq (seq (try_except (seq (learner_call E (''before_'' @ event_type)) f) ex
                 (learner_call E (''after_cancel_'' @ event_type)))
              (learner_call E (''after_'' @ event_type)))
         final"

subsection \<open>The training loop of the Learner Part 1 notebook\<close>

text \<open>
  A call of a collaborator: \<open>f\<close> gives the new state and the exception it raised, if any.
\<close>

definition prim :: "string \<Rightarrow> ('s \<Rightarrow> 's \<times> exn option) \<Rightarrow> 's comp" where
  "prim nm f s =
     (case f s of
        (s1, Some e) \<Rightarrow> ([Ext nm, Raised e], s1, Some e)
      | (s1, None) \<Rightarrow> ([Ext nm], s1, None))"

text \<open>A collaborator that changes only \<open>ext\<close>.\<close>

definition ext_call ::
  "string \<Rightarrow> ('x \<Rightarrow> 'x \<times> exn option) \<Rightarrow> ('t, 'x) learner comp" where
  "ext_call nm f = prim nm (\<lambda>s. case f (ext s) of (x, r) \<Rightarrow> (s\<lparr>ext := x\<rparr>, r))"

text \<open>\<^verbatim>\<open>self.opt.step()\<close>\<close>

definition step :: "('t, 'x) env \<Rightarrow> ('t, 'x) learner comp" where
  "step E = ext_call ''opt.step'' (opt_step E)"

text \<open>\<^verbatim>\<open>self.loss_grad.backward()\<close>; the attribute is missing until a loss was computed.\<close>

definition backward :: "('t, 'x) env \<Rightarrow> ('t, 'x) learner comp" where
  "backward E s =
     (case loss_grad s of
        None \<Rightarrow> ([], s, Some (PyException ''AttributeError'' [''loss_grad'']))
      | Some l \<Rightarrow> ext_call ''loss_grad.backward'' (\<lambda>x. loss_backward E x l) s)"

text \<open>\<^verbatim>\<open>self.pred = self.model(*self.xb)\<close>\<close>

definition model_pred :: "('t, 'x) env \<Rightarrow> ('t, 'x) learner comp" where
  "model_pred E =
     prim ''model''
       (\<lambda>s. case model E (ext s) (xb s) of
               (x, Inl e) \<Rightarrow> (s\<lparr>ext := x\<rparr>, Some e)
             | (x, Inr p) \<Rightarrow> (s\<lparr>pred := Some p, ext := x\<rparr>, None))"

text \<open>
  \<^verbatim>\<open>self.loss_grad = self.loss_func(self.pred, *self.yb); self.loss = self.loss_grad.clone()\<close>
\<close>

definition compute_loss :: "('t, 'x) env \<Rightarrow> ('t, 'x) learner comp" where
  "compute_loss E =
     prim ''loss_func''
       (\<lambda>s. case loss_func E (ext s) (pred s) (yb s) of
               (x, Inl e) \<Rightarrow> (s\<lparr>ext := x\<rparr>, Some e)
             | (x, Inr l) \<Rightarrow> (s\<lparr>loss_grad := Some l, loss := Some l, ext := x\<rparr>, None))"

text \<open>
  The rest of \<^verbatim>\<open>_do_one_batch\<close> after \<^verbatim>\<open>self('after_loss')\<close>.  \<^verbatim>\<open>self.training\<close> is
  read on the learner here; with no such attribute anywhere the read raises.
\<close>

definition update_step :: "('t, 'x) env \<Rightarrow> ('t, 'x) learner comp" where
  "update_step E s =
     (case training s of
        None \<Rightarrow> ([], s, Some (PyException ''AttributeError'' [''training'']))
      | Some tr \<Rightarrow>
          if \<not> tr \<or> yb s = [] then ([], s, None)
          else seq (with_events E (backward E) ''backward'' (is_a CancelBackwardException) noop)
                 (seq (with_events E (step E) ''step'' (is_a CancelStepException) noop)
                      (ext_call ''opt.zero_grad'' (opt_zero_grad E))) s)"

definition do_one_batch :: "('t, 'x) env \<Rightarrow> ('t, 'x) learner comp" where
  "do_one_batch E =
     seq (model_pred E)
       (seq (learner_call E ''after_pred'')
          (seq (\<lambda>s. if yb s \<noteq> [] then compute_loss E s else ([], s, None))
             (seq (learner_call E ''after_loss'')
                (update_step E))))"

text \<open>
  Python's slice bound: a negative index counts from the end, and the result is clipped
  to the length.
\<close>

definition slice_index :: "int \<Rightarrow> nat \<Rightarrow> nat" where
  "slice_index i n = (if i < 0 then nat (max 0 (int n + i)) else min (nat i) n)"

text \<open>
  \<^verbatim>\<open>_split(self, b)\<close>: \<^verbatim>\<open>i = getattr(self.dls, 'n_inp', 1 if len(b)==1 else len(b)-1)\<close>,
  then \<^verbatim>\<open>self.xb,self.yb = b[:i],b[i:]\<close>.
\<close>

definition split_index :: "int option \<Rightarrow> 't list \<Rightarrow> int" where
  "split_index n b =
     (case n of Some i \<Rightarrow> i | None \<Rightarrow> if length b = 1 then 1 else int (length b) - 1)"

definition split_batch :: "'t list \<Rightarrow> ('t, 'x) learner \<Rightarrow> ('t, 'x) learner" where
  "split_batch b s =
     (let i = split_index (n_inp s) b
      in s\<lparr>xb := take (slice_index i (length b)) b, yb := drop (slice_index i (length b)) b\<rparr>)"

text \<open>\<^verbatim>\<open>b = self._set_device(b)\<close> followed by \<^verbatim>\<open>self._split(b)\<close>.\<close>

definition set_device_split :: "('t, 'x) env \<Rightarrow> 't list \<Rightarrow> ('t, 'x) learner comp" where
  "set_device_split E b =
     prim ''_set_device''
       (\<lambda>s. case to_device E (ext s) b of
               Inl e \<Rightarrow> (s, Some e)
             | Inr b' \<Rightarrow> (split_batch b' s, None))"

definition one_batch :: "('t, 'x) env \<Rightarrow> nat \<times> 't list \<Rightarrow> ('t, 'x) learner comp" where
  "one_batch E o' =
     seq (assign (\<lambda>s. s\<lparr>iter := fst o'\<rparr>))
       (seq (set_device_split E (snd o'))
          (with_events E (do_one_batch E) ''batch'' (is_a CancelBatchException) noop))"

text \<open>
  \<^verbatim>\<open>all_batches\<close>: the loop runs over the data loader that \<^verbatim>\<open>self.dl\<close> names when the
  loop starts.
\<close>

definition all_batches :: "('t, 'x) env \<Rightarrow> ('t, 'x) learner comp" where
  "all_batches E s =
     seq (assign (\<lambda>s. s\<lparr>n_iter := length (dl s)\<rparr>))
         (for_each (enumerate 0 (dl s)) (one_batch E)) s"

definition do_epoch_train :: "('t, 'x) env \<Rightarrow> ('t, 'x) learner comp" where
  "do_epoch_train E =
     seq (assign (\<lambda>s. s\<lparr>dl := dls_train s\<rparr>))
         (with_events E (all_batches E) ''train'' (is_a CancelTrainException) noop)"

text \<open>
  \<^verbatim>\<open>_do_epoch_validate\<close> with its defaults \<^verbatim>\<open>ds_idx=1, dl=None\<close>.  \<^verbatim>\<open>torch.no_grad()\<close>
  changes no control flow and is left out.
\<close>

definition do_epoch_validate :: "('t, 'x) env \<Rightarrow> ('t, 'x) learner comp" where
  "do_epoch_validate E =
     seq (assign (\<lambda>s. s\<lparr>dl := dls_valid s\<rparr>))
         (with_events E (all_batches E) ''validate'' (is_a CancelValidException) noop)"

definition do_epoch :: "('t, 'x) env \<Rightarrow> ('t, 'x) learner comp" where
  "do_epoch E = seq (do_epoch_train E) (do_epoch_validate E)"

text \<open>\<^verbatim>\<open>range(self.n_epoch)\<close>, read when the loop starts.\<close>

definition py_range :: "int \<Rightarrow> int list" where
  "py_range n = map int [0 ..< nat n]"

definition do_fit :: "('t, 'x) env \<Rightarrow> ('t, 'x) learner comp" where
  "do_fit E s =
     for_each (py_range (n_epoch s))
       (\<lambda>ep. seq (assign (\<lambda>s. s\<lparr>epoch := ep\<rparr>))
                 (with_events E (do_epoch E) ''epoch'' (is_a CancelEpochException) noop)) s"

text \<open>
  \<^verbatim>\<open>fit\<close> with \<^verbatim>\<open>cbs=None\<close> and \<^verbatim>\<open>start_epoch=0\<close>, so that \<^verbatim>\<open>added_cbs\<close> adds and
  removes nothing.  \<open>fit_setup\<close> is the optimizer and hyper-parameter set-up and
  \<open>end_cleanup\<close> is \<^verbatim>\<open>_end_cleanup\<close>; neither is in the repository.
\<close>

definition fit :: "('t, 'x) env \<Rightarrow> int \<Rightarrow> ('t, 'x) learner comp" where
  "fit E n =
     seq (prim ''fit_setup'' (fit_setup E))
       (seq (assign (\<lambda>s. s\<lparr>n_epoch := n\<rparr>))
          (with_events E (do_fit E) ''fit'' (is_a CancelFitException)
             (prim ''_end_cleanup'' (end_cleanup E))))"

subsection \<open>Adding and removing callbacks\<close>

text \<open>
  The argument of \<^verbatim>\<open>add_cb\<close> and \<^verbatim>\<open>remove_cb\<close> is a class (\<^verbatim>\<open>isinstance(cb, type)\<close>)
  or a callback object.
\<close>

datatype cb_arg = Class string | Instance nat

definition isinstance :: "callback \<Rightarrow> string \<Rightarrow> bool" where
  "isinstance cb cls = (cls = cls_name cb \<or> cls \<in> set (bases cb))"

text \<open>
  \<^verbatim>\<open>add_cb\<close>: a class is instantiated first, into a fresh object of the store.
\<close>

definition add_cb_instance :: "nat \<Rightarrow> ('t, 'x) learner comp" where
  "add_cb_instance c s =
     ([],
      s\<lparr>cbs := cbs s @ [c],
        objs := (objs s)(c := (objs s c)\<lparr>learn := True\<rparr>),
        attrs := (attrs s)(name (objs s c) \<mapsto> c)\<rparr>,
      None)"

definition add_cb :: "('t, 'x) env \<Rightarrow> cb_arg \<Rightarrow> ('t, 'x) learner comp" where
  "add_cb E cb s =
     (case cb of
        Class cls \<Rightarrow>
          add_cb_instance (next_ref s)
            (s\<lparr>objs := (objs s)(next_ref s := construct E cls), next_ref := Suc (next_ref s)\<rparr>)
      | Instance c \<Rightarrow> add_cb_instance c s)"

definition add_cbs :: "('t, 'x) env \<Rightarrow> cb_arg list \<Rightarrow> ('t, 'x) learner comp" where
  "add_cbs E cs = for_each cs (add_cb E)"

definition grab_cbs :: "string \<Rightarrow> ('t, 'x) learner \<Rightarrow> nat list" where
  "grab_cbs cb_cls s = filter (\<lambda>c. isinstance (objs s c) cb_cls) (cbs s)"

text \<open>
  \<^verbatim>\<open>hasattr(self, nm)\<close> on the learner: the name is an attribute of the object, or it is
  found on the class or the model.
\<close>

definition hasattr :: "('t, 'x) learner \<Rightarrow> string \<Rightarrow> bool" where
  "hasattr s nm = (attrs s nm \<noteq> None \<or> nm \<in> set (class_model_attrs s))"

text \<open>
  \<^verbatim>\<open>delattr(self, nm)\<close> on the learner deletes an attribute of the object; for a name
  that the object itself does not have it raises \<^verbatim>\<open>AttributeError\<close>.
\<close>

definition delattr :: "string \<Rightarrow> ('t, 'x) learner comp" where
  "delattr nm s =
     (if attrs s nm \<noteq> None then ([], s\<lparr>attrs := (attrs s)(nm := None)\<rparr>, None)
      else ([], s, Some (PyException ''AttributeError'' [nm])))"

text \<open>
  The \<^verbatim>\<open>else\<close> branch of \<^verbatim>\<open>remove_cb\<close>: \<^verbatim>\<open>cb.learn = None\<close>; then
  \<^verbatim>\<open>if hasattr(self, cb.name): delattr(self, cb.name)\<close>; then the first occurrence is
  removed when \<^verbatim>\<open>cb in self.cbs\<close>.
\<close>

definition remove_cb_instance :: "nat \<Rightarrow> ('t, 'x) learner comp" where
  "remove_cb_instance c =
     seq (assign (\<lambda>s. s\<lparr>objs := (objs s)(c := (objs s c)\<lparr>learn := False\<rparr>)\<rparr>))
       (seq (\<lambda>s. if hasattr s (name (objs s c)) then delattr (name (objs s c)) s
                  else ([], s, None))
          (assign (\<lambda>s. if c \<in> set (cbs s) then s\<lparr>cbs := remove1 c (cbs s)\<rparr> else s)))"

text \<open>
  \<^verbatim>\<open>remove_cb\<close>; for a class, \<^verbatim>\<open>remove_cbs\<close> maps it over the objects that
  \<^verbatim>\<open>_grab_cbs\<close> finds.
\<close>

definition remove_cb :: "cb_arg \<Rightarrow> ('t, 'x) learner comp" where
  "remove_cb cb s =
     (case cb of
        Class cls \<Rightarrow> for_each (grab_cbs cls s) remove_cb_instance s
      | Instance c \<Rightarrow> remove_cb_instance c s)"

definition remove_cbs :: "cb_arg list \<Rightarrow> ('t, 'x) learner comp" where
  "remove_cbs cs = for_each cs remove_cb"

section \<open>Properties of traces\<close>

text \<open>
  \<open>cf_last r\<close>: in the run \<open>r\<close> a \<^verbatim>\<open>CancelFitException\<close> is raised at most as the last
  thing that happens, and then it is the exception the run ends with.
\<close>

definition cf_raised :: item where
  "cf_raised = Raised (Cancel CancelFitException)"

definition cf_last :: "item list \<times> 's \<times> exn option \<Rightarrow> bool" where
  "cf_last r =
     (case r of (t, s, e) \<Rightarrow>
        cf_raised \<notin> set (butlast t)
        \<and> (cf_raised \<in> set t \<longrightarrow> e = Some (Cancel CancelFitException)))"

text \<open>\<open>cancel_seen r\<close>: a run that ends with a cancellation has seen it raised.\<close>

definition cancel_seen :: "item list \<times> 's \<times> exn option \<Rightarrow> bool" where
  "cancel_seen r =
     (case r of (t, s, e) \<Rightarrow> \<forall>k. e = Some (Cancel k) \<longrightarrow> Raised (Cancel k) \<in> set t)"

text \<open>\<open>dispatches ev t\<close>: how often the learner was called with the event \<open>ev\<close>.\<close>

definition dispatches :: "string \<Rightarrow> item list \<Rightarrow> nat" where
  "dispatches ev t = count_list t (Dispatch ev)"

section \<open>An example learner\<close>

text \<open>
  The events of the Callbacks notebook with the \<^verbatim>\<open>after_cancel_\<close> events that
  \<^verbatim>\<open>_with_events\<close> calls, and the list \<^verbatim>\<open>_inner_loop\<close> of fastai that the notebook
  imports.
\<close>

definition fastai_events :: "string list" where
  "fastai_events =
     [''after_create'', ''before_fit'', ''before_epoch'', ''before_train'', ''before_batch'',
      ''after_pred'', ''after_loss'', ''before_backward'', ''after_cancel_backward'',
      ''after_backward'', ''before_step'', ''after_cancel_step'', ''after_step'',
      ''after_cancel_batch'', ''after_batch'', ''after_cancel_train'', ''after_train'',
      ''before_validate'', ''after_cancel_validate'', ''after_validate'',
      ''after_cancel_epoch'', ''after_epoch'', ''after_cancel_fit'', ''after_fit'']"

definition fastai_inner_loop :: "string list" where
  "fastai_inner_loop =
     [''before_batch'', ''after_pred'', ''after_loss'', ''before_backward'',
      ''after_cancel_backward'', ''after_backward'', ''before_step'', ''after_step'',
      ''after_cancel_batch'', ''after_batch'']"

definition example_cb :: "string \<Rightarrow> int \<Rightarrow> bool \<Rightarrow> callback" where
  "example_cb nm ord rv =
     \<lparr>cls_name = nm, bases = [''Callback''], name = nm, default_attr = ''learn'',
      order = ord, learn = True, run = True, run_train = True, run_valid = rv\<rparr>"

text \<open>
  Four callback objects of classes that derive from the \<^verbatim>\<open>Callback\<close> of fastai:
  \<^verbatim>\<open>TrainEvalCallback\<close> (\<^verbatim>\<open>order,run_valid = -10,False\<close>) is object 0, \<^verbatim>\<open>Recorder\<close>
  (\<^verbatim>\<open>order = 50\<close>) is object 1, and objects 2 and 3 are two callbacks of the default
  order 0.
\<close>

definition example_objs :: "nat \<Rightarrow> callback" where
  "example_objs c =
     (if c = 0 then example_cb ''TrainEvalCallback'' (- 10) False
      else if c = 1 then example_cb ''Recorder'' 50 True
      else if c = 2 then example_cb ''Stopper'' 0 True
      else example_cb ''Watcher'' 0 True)"

definition example_learner :: "(nat, nat) learner" where
  "example_learner =
     \<lparr>cbs = [1, 2, 0, 3], objs = example_objs, attrs = Map.empty,
      class_model_attrs = [''fit'', ''add_cb'', ''remove_cb'', ''parameters''], next_ref = 4,
      training = Some False, n_epoch = 0, epoch = 0, n_iter = 0, iter = 0,
      dls_train = [[1, 2], [3, 4]], dls_valid = [[5, 6], [7, 8]], n_inp = None,
      dl = [], xb = [], yb = [], pred = None, loss_grad = None, loss = None, ext = 0\<rparr>"

text \<open>
  The same learner with callbacks of classes that derive from the \<^verbatim>\<open>Callback\<close> class
  as the Callbacks notebook defines it, without \<^verbatim>\<open>_default\<close>; in it object 3 has
  \<^verbatim>\<open>run_train\<close> false.
\<close>

definition notebook_objs :: "nat \<Rightarrow> callback" where
  "notebook_objs c =
     (if c = 3 then (example_objs c)\<lparr>default_attr := ''default'', run_train := False\<rparr>
      else (example_objs c)\<lparr>default_attr := ''default''\<rparr>)"

definition notebook_learner :: "(nat, nat) learner" where
  "notebook_learner = example_learner\<lparr>objs := notebook_objs\<rparr>"

text \<open>
  The methods: object 0 sets \<^verbatim>\<open>self.learn.training\<close> in \<^verbatim>\<open>before_train\<close> and
  \<^verbatim>\<open>before_validate\<close> as \<^verbatim>\<open>TrainEvalCallback\<close> does; object 2 raises what \<open>p\<close> tells
  it to; the other objects define no method.
\<close>

definition example_method ::
  "(string \<Rightarrow> (nat, nat) learner \<Rightarrow> exn option) \<Rightarrow> nat \<Rightarrow> string \<Rightarrow> (nat, nat) learner
     \<Rightarrow> (nat, nat) learner \<times> nat option outcome" where
  "example_method p c ev s =
     (if c = 0 then
        (if ev = ''before_train'' then (s\<lparr>training := Some True\<rparr>, Returns None)
         else if ev = ''before_validate'' then (s\<lparr>training := Some False\<rparr>, Returns None)
         else (s, Returns None))
      else if c = 2 then
        (case p ev s of Some e \<Rightarrow> (s, Raises e) | None \<Rightarrow> (s, Returns None))
      else (s, Returns None))"

text \<open>The collaborators of the example never fail; \<open>ext\<close> counts the optimizer steps.\<close>

definition example_env ::
  "(string \<Rightarrow> (nat, nat) learner \<Rightarrow> exn option) \<Rightarrow> (nat, nat) env" where
  "example_env p =
     \<lparr>events = fastai_events, inner_loop = fastai_inner_loop, getcallable = example_method p,
      construct = (\<lambda>cls. example_cb cls 0 True),
      model = (\<lambda>x b. (x, Inr (sum_list b))),
      loss_func = (\<lambda>x p b. (x, Inr (sum_list b))),
      loss_backward = (\<lambda>x l. (x, None)),
      opt_step = (\<lambda>x. (Suc x, None)),
      opt_zero_grad = (\<lambda>x. (x, None)),
      to_device = (\<lambda>x b. Inr b),
      fit_setup = (\<lambda>s. (s, None)),
      end_cleanup = (\<lambda>s. (s\<lparr>dl := [], xb := [], yb := [], pred := None, loss := None\<rparr>, None))\<rparr>"

text \<open>Policies for object 2.\<close>

definition never :: "string \<Rightarrow> (nat, nat) learner \<Rightarrow> exn option" where
  "never ev s = None"

definition cancel_train_on_before_batch :: "string \<Rightarrow> (nat, nat) learner \<Rightarrow> exn option" where
  "cancel_train_on_before_batch ev s =
     (if ev = ''before_batch'' \<and> training s = Some True
      then Some (Cancel CancelTrainException) else None)"

definition cancel_fit_on_after_loss :: "string \<Rightarrow> (nat, nat) learner \<Rightarrow> exn option" where
  "cancel_fit_on_after_loss ev s =
     (if ev = ''after_loss'' then Some (Cancel CancelFitException) else None)"

definition cancel_batch_on_after_pred :: "string \<Rightarrow> (nat, nat) learner \<Rightarrow> exn option" where
  "cancel_batch_on_after_pred ev s =
     (if ev = ''after_pred'' then Some (Cancel CancelBatchException) else None)"

definition interrupt_on_after_loss :: "string \<Rightarrow> (nat, nat) learner \<Rightarrow> exn option" where
  "interrupt_on_after_loss ev s =
     (if ev = ''after_loss'' then Some (PyBaseException ''KeyboardInterrupt'' []) else None)"

definition fail_on_after_loss :: "string \<Rightarrow> (nat, nat) learner \<Rightarrow> exn option" where
  "fail_on_after_loss ev s =
     (if ev = ''after_loss'' then Some (PyException ''RuntimeError'' [''boom'']) else None)"

section \<open>Basic facts\<close>

lemmas example_defs =
  example_learner_def example_objs_def example_cb_def example_env_def example_method_def
  fastai_events_def fastai_inner_loop_def

lemma prepend_simps [simp]: "prepend t (t', s, r) = (t @ t', s, r)"
  by (simp add: prepend_def)

lemma fst_prepend [simp]: "fst (prepend t r) = t @ fst r"
  by (simp add: prepend_def split: prod.splits)

lemma snd_prepend [simp]: "snd (prepend t r) = snd r"
  by (simp add: prepend_def split: prod.splits)

lemma prepend_Nil [simp]: "prepend [] r = r"
  by (simp add: prepend_def split: prod.splits)

lemma prepend_prepend [simp]: "prepend t (prepend u r) = prepend (t @ u) r"
  by (simp add: prepend_def split: prod.splits)

lemma seq_None: "c1 s = (t1, s1, None) \<Longrightarrow> seq c1 c2 s = prepend t1 (c2 s1)"
  by (simp add: seq_def)

lemma seq_Some: "c1 s = (t1, s1, Some e) \<Longrightarrow> seq c1 c2 s = (t1, s1, Some e)"
  by (simp add: seq_def)

lemma try_None: "c s = (t1, s1, None) \<Longrightarrow> try_except c ex h s = (t1, s1, None)"
  by (simp add: try_except_def)

lemma try_caught:
  "c s = (t1, s1, Some e) \<Longrightarrow> ex e \<Longrightarrow> try_except c ex h s = prepend t1 (h s1)"
  by (simp add: try_except_def)

lemma try_uncaught:
  "c s = (t1, s1, Some e) \<Longrightarrow> \<not> ex e \<Longrightarrow> try_except c ex h s = (t1, s1, Some e)"
  by (simp add: try_except_def)

lemma invoked_append [simp]: "invoked (t @ u) = invoked t @ invoked u"
  by (induction t rule: invoked.induct) auto

lemma triple_eq: "snd (snd r) = e \<Longrightarrow> r = (fst r, fst (snd r), e)"
  by (cases r) auto

lemma pair_eq: "snd r = e \<Longrightarrow> r = (fst r, e)"
  by (cases r) auto

lemma last_of_not_butlast: "x \<in> set t \<Longrightarrow> x \<notin> set (butlast t) \<Longrightarrow> last t = x"
  by (cases t rule: rev_cases) auto

section \<open>Splitting a batch\<close>

text \<open>
  C7, as the spec has it: every batch, whatever its length, is split by default into all
  but the last element as inputs and the last element as target.  A batch of one
  element is split differently: the element is the input and there is no target.
\<close>

theorem split_default_counterexample:
  "n_inp example_learner = None
   \<and> \<not> (xb (split_batch [5] example_learner) = butlast [5]
        \<and> yb (split_batch [5] example_learner) = [last [5]])"
  by (simp add: split_batch_def split_index_def slice_index_def example_learner_def)

text \<open>
  C7, amended: with no \<^verbatim>\<open>n_inp\<close> configured, a batch whose length is not 1 is split
  into all but the last element as inputs and the last element as target (both empty
  for the empty batch), and a batch of length 1 into that element as input and no
  target; with \<^verbatim>\<open>n_inp\<close> set to \<open>i \<ge> 0\<close> the first \<open>i\<close> elements are the inputs and
  the rest the targets.  The two parts always make up the batch.
\<close>

theorem split_batch_inputs_targets:
  "(n_inp s = None \<and> length b \<noteq> 1 \<longrightarrow>
      xb (split_batch b s) = butlast b
      \<and> yb (split_batch b s) = (if b = [] then [] else [last b]))
   \<and> (n_inp s = None \<and> length b = 1 \<longrightarrow>
      xb (split_batch b s) = b \<and> yb (split_batch b s) = [])
   \<and> (\<forall>i. n_inp s = Some i \<and> 0 \<le> i \<longrightarrow>
      xb (split_batch b s) = take (nat i) b \<and> yb (split_batch b s) = drop (nat i) b)
   \<and> xb (split_batch b s) @ yb (split_batch b s) = b"
proof (intro conjI impI allI)
  assume "n_inp s = None \<and> length b \<noteq> 1"
  then show "xb (split_batch b s) = butlast b"
    by (cases b rule: rev_cases)
      (auto simp: split_batch_def split_index_def slice_index_def butlast_conv_take)
next
  assume "n_inp s = None \<and> length b \<noteq> 1"
  then show "yb (split_batch b s) = (if b = [] then [] else [last b])"
    by (cases b rule: rev_cases)
      (auto simp: split_batch_def split_index_def slice_index_def)
next
  assume "n_inp s = None \<and> length b = 1"
  then show "xb (split_batch b s) = b"
    by (auto simp: split_batch_def split_index_def slice_index_def)
next
  assume "n_inp s = None \<and> length b = 1"
  then show "yb (split_batch b s) = []"
    by (auto simp: split_batch_def split_index_def slice_index_def)
next
  fix i assume "n_inp s = Some i \<and> 0 \<le> i"
  then show "xb (split_batch b s) = take (nat i) b"
    by (auto simp: split_batch_def split_index_def slice_index_def min_def)
next
  fix i assume "n_inp s = Some i \<and> 0 \<le> i"
  then show "yb (split_batch b s) = drop (nat i) b"
    by (auto simp: split_batch_def split_index_def slice_index_def min_def)
next
  show "xb (split_batch b s) @ yb (split_batch b s) = b"
    by (simp add: split_batch_def Let_def)
qed

theorem split_batch_inputs_targets_witness:
  "xb (split_batch [1, 2, 3] example_learner) = [1, 2]
   \<and> yb (split_batch [1, 2, 3] example_learner) = [3]
   \<and> xb (split_batch [5] example_learner) = [5]
   \<and> yb (split_batch [5] example_learner) = []
   \<and> xb (split_batch [1, 2, 3] (example_learner\<lparr>n_inp := Some 1\<rparr>)) = [1]
   \<and> yb (split_batch [1, 2, 3] (example_learner\<lparr>n_inp := Some 1\<rparr>)) = [2, 3]"
proof -
  have n: "n_inp example_learner = None"
    by (simp add: example_learner_def)
  have m: "n_inp (example_learner\<lparr>n_inp := Some 1\<rparr>) = Some 1 \<and> (0::int) \<le> 1"
    by simp
  from n split_batch_inputs_targets [of example_learner "[1, 2, 3]"]
  have a: "xb (split_batch [1, 2, 3] example_learner) = [1, 2]
           \<and> yb (split_batch [1, 2, 3] example_learner) = [3]"
    by simp
  from n split_batch_inputs_targets [of example_learner "[5]"]
  have b: "xb (split_batch [5] example_learner) = [5]
           \<and> yb (split_batch [5] example_learner) = []"
    by simp
  from m split_batch_inputs_targets [of "example_learner\<lparr>n_inp := Some 1\<rparr>" "[1, 2, 3]"]
  have c: "xb (split_batch [1, 2, 3] (example_learner\<lparr>n_inp := Some 1\<rparr>)) = [1]
           \<and> yb (split_batch [1, 2, 3] (example_learner\<lparr>n_inp := Some 1\<rparr>)) = [2, 3]"
    by simp
  from a b c show ?thesis by simp
qed

section \<open>Removing and adding callbacks\<close>


text \<open>
  When the name of the callback is no attribute of the learner object but is found on
  its class or its model, \<^verbatim>\<open>hasattr\<close> holds and \<^verbatim>\<open>delattr\<close> raises: the removal ends
  with \<^verbatim>\<open>AttributeError\<close>, after \<^verbatim>\<open>learn\<close> was cleared and before the list is touched.
\<close>

lemma remove_cb_name_clash:
  assumes "attrs s (name (objs s c)) = None"
    and "name (objs s c) \<in> set (class_model_attrs s)"
  shows "remove_cb (Instance c) s =
           ([], s\<lparr>objs := (objs s)(c := (objs s c)\<lparr>learn := False\<rparr>)\<rparr>,
            Some (PyException ''AttributeError'' [name (objs s c)]))"
  using assms
  by (simp add: remove_cb_def remove_cb_instance_def seq_def assign_def hasattr_def
      delattr_def)



section \<open>Calling one callback\<close>

lemma except_clauses_Cancel: "except_clauses cls ev e = Cancel k \<longleftrightarrow> e = Cancel k"
  by (cases "(cls, ev, e)" rule: except_clauses.cases) auto

text \<open>
  An exception with an empty \<^verbatim>\<open>args\<close> tuple: reading \<^verbatim>\<open>e.args[0]\<close> for the message
  raises \<^verbatim>\<open>IndexError\<close>, and that is what leaves the call, without the name of the
  callback or of the event.
\<close>

lemma Callback_call_empty_args:
  assumes "run (objs s c)" and "gate E (objs s c) ev s"
    and "getcallable E c ev s = (s1, Raises (PyException cls []))"
  shows "Callback_call E c ev s =
           ([Invoke c ev, Raised (PyException cls [])], s1,
            Raises (PyException ''IndexError'' [''tuple index out of range'']))"
  using assms by (simp add: Callback_call_def)

text \<open>
  C5, as the spec has it: every exception a method raises, other than the seven
  cancellations, leaves the call wrapped with the callback and the event.  A
  \<^verbatim>\<open>KeyboardInterrupt\<close> raised in \<^verbatim>\<open>after_loss\<close> leaves the call as it was raised.
\<close>

theorem base_exception_counterexample:
  "Callback_call (example_env interrupt_on_after_loss) 2 ''after_loss'' example_learner
     = ([Invoke 2 ''after_loss'', Raised (PyBaseException ''KeyboardInterrupt'' [])],
        example_learner, Raises (PyBaseException ''KeyboardInterrupt'' []))"
  by (simp add: Callback_call_def gate_def getattr_training_def example_env_def
      example_method_def example_learner_def example_objs_def example_cb_def
      interrupt_on_after_loss_def)

text \<open>
  C5, amended: when a method that the callback runs raises, the call raises too (nothing
  is swallowed), in both versions of \<^verbatim>\<open>Callback.__call__\<close>: one of the seven
  cancellations unchanged; an exception deriving from \<^verbatim>\<open>Exception\<close> with a non-empty
  \<^verbatim>\<open>args\<close> as the same class with its \<^verbatim>\<open>args\<close> replaced by one message holding the
  class name of the callback, the event name and the first argument; an exception that
  derives from \<^verbatim>\<open>BaseException\<close> only unchanged.
\<close>

theorem handler_error_annotated:
  assumes "run (objs s c)" and "gate E (objs s c) ev s"
    and "getcallable E c ev s = (s1, Raises e)"
  shows "\<exists>e'. Callback_call E c ev s = ([Invoke c ev, Raised e], s1, Raises e')
            \<and> Callback_call_part2 E c ev s = ([Invoke c ev, Raised e], s1, Raises e')
            \<and> (\<forall>k. e = Cancel k \<longrightarrow> e' = e)
            \<and> (\<forall>cls a args. e = PyException cls (a # args) \<longrightarrow>
                  e' = PyException cls
                         [''Exception occured in `'' @ cls_name (objs s1 c)
                          @ ''` when calling event `'' @ ev @ ''`:''
                          @ [CHR 0x0A, CHR 0x09] @ a])
            \<and> (\<forall>cls args. e = PyBaseException cls args \<longrightarrow> e' = e)"
  using assms by (auto simp: Callback_call_def Callback_call_part2_def context_msg_def)

theorem handler_error_annotated_witness:
  "run (objs example_learner 2)
   \<and> gate (example_env fail_on_after_loss) (objs example_learner 2) ''after_loss''
       example_learner
   \<and> getcallable (example_env fail_on_after_loss) 2 ''after_loss'' example_learner
       = (example_learner, Raises (PyException ''RuntimeError'' [''boom'']))
   \<and> snd (snd (Callback_call (example_env fail_on_after_loss) 2 ''after_loss''
                  example_learner))
     = Raises (PyException ''RuntimeError''
         [''Exception occured in `Stopper` when calling event `after_loss`:''
          @ [CHR 0x0A, CHR 0x09] @ ''boom''])
   \<and> getcallable (example_env cancel_fit_on_after_loss) 2 ''after_loss'' example_learner
       = (example_learner, Raises (Cancel CancelFitException))
   \<and> snd (snd (Callback_call (example_env cancel_fit_on_after_loss) 2 ''after_loss''
                  example_learner))
     = Raises (Cancel CancelFitException)"
proof -
  have r: "run (objs example_learner 2)"
    by (simp add: example_learner_def example_objs_def example_cb_def)
  have g: "gate E (objs example_learner 2) ''after_loss'' example_learner" for E
    by (simp add: gate_def getattr_training_def example_learner_def example_objs_def
        example_cb_def)
  have m: "getcallable (example_env fail_on_after_loss) 2 ''after_loss'' example_learner
             = (example_learner, Raises (PyException ''RuntimeError'' [''boom'']))"
    by (simp add: example_env_def example_method_def fail_on_after_loss_def)
  have k: "getcallable (example_env cancel_fit_on_after_loss) 2 ''after_loss'' example_learner
             = (example_learner, Raises (Cancel CancelFitException))"
    by (simp add: example_env_def example_method_def cancel_fit_on_after_loss_def)
  have n: "cls_name (objs example_learner 2) = ''Stopper''"
    by (simp add: example_learner_def example_objs_def example_cb_def)
  from handler_error_annotated [OF r g m] n
  have a: "snd (snd (Callback_call (example_env fail_on_after_loss) 2 ''after_loss''
                  example_learner))
     = Raises (PyException ''RuntimeError''
         [''Exception occured in `Stopper` when calling event `after_loss`:''
          @ [CHR 0x0A, CHR 0x09] @ ''boom''])"
    by auto
  from handler_error_annotated [OF r g k]
  have b: "snd (snd (Callback_call (example_env cancel_fit_on_after_loss) 2 ''after_loss''
                  example_learner))
     = Raises (Cancel CancelFitException)"
    by auto
  from r g m k a b show ?thesis by simp
qed

text \<open>
  Where the class of the callback sets \<^verbatim>\<open>_default = 'learn'\<close>, as the \<^verbatim>\<open>Callback\<close> of
  fastai does, the call follows \<^verbatim>\<open>training\<close>: a callback with \<^verbatim>\<open>run\<close> and
  \<^verbatim>\<open>run_train\<close> true and \<^verbatim>\<open>run_valid\<close> false, attached to the learner, has its method
  called for every event while \<^verbatim>\<open>training\<close> is true, for no event of the batch loop
  while \<^verbatim>\<open>training\<close> is false, and for every other event in both cases; and the same
  with \<^verbatim>\<open>run_train\<close> and \<^verbatim>\<open>run_valid\<close> exchanged and \<^verbatim>\<open>training\<close> negated.
\<close>

lemma gating_with_learn:
  assumes "run (objs s c)" and "learn (objs s c)" and "default_attr (objs s c) = ''learn''"
  shows "(run_train (objs s c) \<and> \<not> run_valid (objs s c) \<longrightarrow>
            (training s = Some True \<longrightarrow> invoked (fst (Callback_call E c ev s)) = [c])
          \<and> (training s = Some False \<and> ev \<in> set (inner_loop E) \<longrightarrow>
               fst (Callback_call E c ev s) = [])
          \<and> (ev \<notin> set (inner_loop E) \<longrightarrow> invoked (fst (Callback_call E c ev s)) = [c]))
       \<and> (run_valid (objs s c) \<and> \<not> run_train (objs s c) \<longrightarrow>
            (training s = Some False \<longrightarrow> invoked (fst (Callback_call E c ev s)) = [c])
          \<and> (training s = Some True \<and> ev \<in> set (inner_loop E) \<longrightarrow>
               fst (Callback_call E c ev s) = [])
          \<and> (ev \<notin> set (inner_loop E) \<longrightarrow> invoked (fst (Callback_call E c ev s)) = [c]))"
  using assms
  by (auto simp: Callback_call_def gate_def getattr_training_def
      split: prod.splits outcome.splits)

text \<open>
  Where the class does not set \<^verbatim>\<open>_default\<close>, as the \<^verbatim>\<open>Callback\<close> of the Callbacks
  notebook, no \<^verbatim>\<open>training\<close> is found and both reads answer with their defaults: the
  gate is open for every event as soon as \<^verbatim>\<open>run_train\<close> or \<^verbatim>\<open>run_valid\<close> holds,
  whatever \<^verbatim>\<open>training\<close> is.
\<close>

lemma gate_without_learn:
  assumes "default_attr (objs s c) \<noteq> ''learn''"
  shows "gate E (objs s c) ev s
           = (ev \<notin> set (inner_loop E) \<or> run_train (objs s c) \<or> run_valid (objs s c))"
  using assms by (simp add: gate_def getattr_training_def)

text \<open>
  C6 says that a callback with \<^verbatim>\<open>run_valid\<close> false and \<^verbatim>\<open>run\<close> and \<^verbatim>\<open>run_train\<close> true
  receives no event of the batch loop while \<^verbatim>\<open>training\<close> is false, and a callback with
  \<^verbatim>\<open>run_train\<close> false none while \<^verbatim>\<open>training\<close> is true.  With the \<^verbatim>\<open>Callback\<close> class
  of the Callbacks notebook this is not what happens: object 0 (\<^verbatim>\<open>run_valid\<close> false)
  has its \<^verbatim>\<open>before_batch\<close> called while \<^verbatim>\<open>training\<close> is false, and object 3
  (\<^verbatim>\<open>run_train\<close> false) while \<^verbatim>\<open>training\<close> is true.
\<close>

theorem notebook_callback_not_gated:
  "default_attr (objs notebook_learner 0) = ''default''
   \<and> learn (objs notebook_learner 0) \<and> run (objs notebook_learner 0)
   \<and> run_train (objs notebook_learner 0) \<and> \<not> run_valid (objs notebook_learner 0)
   \<and> training notebook_learner = Some False
   \<and> ''before_batch'' \<in> set (inner_loop (example_env never))
   \<and> Callback_call (example_env never) 0 ''before_batch'' notebook_learner
       = ([Invoke 0 ''before_batch''], notebook_learner, Returns None)
   \<and> default_attr (objs notebook_learner 3) = ''default''
   \<and> learn (objs notebook_learner 3) \<and> run (objs notebook_learner 3)
   \<and> \<not> run_train (objs notebook_learner 3) \<and> run_valid (objs notebook_learner 3)
   \<and> Callback_call (example_env never) 3 ''before_batch''
         (notebook_learner\<lparr>training := Some True\<rparr>)
       = ([Invoke 3 ''before_batch''], notebook_learner\<lparr>training := Some True\<rparr>,
          Returns None)"
  by (simp add: Callback_call_def gate_def getattr_training_def reset_run_def
      notebook_learner_def notebook_objs_def example_defs)

text \<open>
  C9, as the claim has it: the two versions of \<^verbatim>\<open>Callback.__call__\<close> agree on every
  callback state and event.  For \<^verbatim>\<open>TrainEvalCallback\<close> (\<^verbatim>\<open>run_valid\<close> false) and
  \<^verbatim>\<open>before_batch\<close> while \<^verbatim>\<open>training\<close> is false, the version of the Callbacks notebook
  calls no method and the version of the Learner Part 2 notebook calls it.
\<close>

theorem call_versions_counterexample:
  "fst (Callback_call (example_env never) 0 ''before_batch'' example_learner) = []
   \<and> fst (Callback_call_part2 (example_env never) 0 ''before_batch'' example_learner)
       = [Invoke 0 ''before_batch'']"
  by (simp add: Callback_call_def Callback_call_part2_def gate_def getattr_training_def
      example_defs)

lemma set_run_True_idem: "run (objs s c) \<Longrightarrow> set_run_True c s = s"
proof -
  assume r: "run (objs s c)"
  then have "(objs s c)\<lparr>run := True\<rparr> = objs s c"
    by (cases "objs s c") auto
  then show ?thesis
    by (simp add: set_run_True_def)
qed

text \<open>
  C9, amended: for a callback with \<^verbatim>\<open>run\<close> true, and an event that passes the gate of
  the Callbacks notebook (the event is outside the batch loop, or \<^verbatim>\<open>run_train\<close> holds
  while training, or \<^verbatim>\<open>run_valid\<close> holds while not training) and, when it is
  \<^verbatim>\<open>after_fit\<close>, whose method leaves \<^verbatim>\<open>run\<close> true, the two versions return the same
  result, call the same method and leave the same state.
\<close>

theorem call_versions_agree:
  assumes "run (objs s c)" and "gate E (objs s c) ev s"
    and "ev \<noteq> ''after_fit'' \<or> run (objs (fst (getcallable E c ev s)) c)"
  shows "Callback_call_part2 E c ev s = Callback_call E c ev s"
proof -
  obtain s1 r where m: "getcallable E c ev s = (s1, r)"
    by (cases "getcallable E c ev s") auto
  with assms(3) have "reset_run c ev s1 = s1"
    by (auto simp: reset_run_def set_run_True_idem)
  with assms(1,2) m show ?thesis
    by (cases r) (simp_all add: Callback_call_def Callback_call_part2_def)
qed

theorem call_versions_agree_witness:
  "run (objs example_learner 2)
   \<and> gate (example_env never) (objs example_learner 2) ''before_batch'' example_learner
   \<and> ''before_batch'' \<noteq> ''after_fit''
   \<and> Callback_call_part2 (example_env never) 2 ''before_batch'' example_learner
       = ([Invoke 2 ''before_batch''], example_learner, Returns None)
   \<and> Callback_call (example_env never) 2 ''before_batch'' example_learner
       = ([Invoke 2 ''before_batch''], example_learner, Returns None)
   \<and> gate (example_env never) (objs example_learner 2) ''after_fit'' example_learner
   \<and> run (objs (fst (getcallable (example_env never) 2 ''after_fit'' example_learner)) 2)
   \<and> Callback_call_part2 (example_env never) 2 ''after_fit'' example_learner
       = ([Invoke 2 ''after_fit''], example_learner, Returns None)
   \<and> Callback_call (example_env never) 2 ''after_fit'' example_learner
       = ([Invoke 2 ''after_fit''], example_learner, Returns None)"
proof -
  have r: "run (objs example_learner 2)"
    by (simp add: example_defs)
  have g: "gate (example_env never) (objs example_learner 2) ev example_learner" for ev
    by (simp add: gate_def getattr_training_def example_defs)
  have n: "''before_batch'' \<noteq> ''after_fit''"
    by simp
  have k: "run (objs (fst (getcallable (example_env never) 2 ''after_fit'' example_learner)) 2)"
    by (simp add: example_defs never_def)
  have p: "Callback_call_part2 (example_env never) 2 ev example_learner
             = ([Invoke 2 ev], example_learner, Returns None)" for ev
    by (simp add: Callback_call_part2_def example_defs never_def)
  from call_versions_agree [OF r g, of "''before_batch''"] n p [of "''before_batch''"]
  have a: "Callback_call (example_env never) 2 ''before_batch'' example_learner
       = ([Invoke 2 ''before_batch''], example_learner, Returns None)"
    by simp
  from call_versions_agree [OF r g, of "''after_fit''"] k p [of "''after_fit''"]
  have b: "Callback_call (example_env never) 2 ''after_fit'' example_learner
       = ([Invoke 2 ''after_fit''], example_learner, Returns None)"
    by simp
  from r g n k p a b show ?thesis by simp
qed

text \<open>
  C10: a call of a callback with \<^verbatim>\<open>after_fit\<close> that returns leaves its \<^verbatim>\<open>run\<close> true;
  for a callback whose \<^verbatim>\<open>run\<close> is false the call runs no method, returns
  \<^verbatim>\<open>None\<close> and changes nothing but \<^verbatim>\<open>run\<close>, which becomes true.  For every other
  event the call itself writes nothing: the state it leaves is the one its method left,
  or the one it started in when no method ran.
\<close>

theorem after_fit_resets_run:
  "(\<forall>t s' v. Callback_call E c ''after_fit'' s = (t, s', Returns v) \<longrightarrow> run (objs s' c))
   \<and> (\<not> run (objs s c) \<longrightarrow>
        Callback_call E c ''after_fit'' s = ([], set_run_True c s, Returns None)
        \<and> run (objs (set_run_True c s) c))
   \<and> (ev \<noteq> ''after_fit'' \<longrightarrow>
        fst (snd (Callback_call E c ev s)) =
          (if run (objs s c) \<and> gate E (objs s c) ev s then fst (getcallable E c ev s) else s))"
  by (auto simp: Callback_call_def reset_run_def set_run_True_def
      split: prod.splits outcome.splits if_splits)

theorem after_fit_resets_run_witness:
  "\<not> run (objs (example_learner\<lparr>objs := example_objs(2 := (example_objs 2)\<lparr>run := False\<rparr>)\<rparr>) 2)
   \<and> run (objs (fst (snd (Callback_call (example_env never) 2 ''after_fit''
        (example_learner\<lparr>objs := example_objs(2 := (example_objs 2)\<lparr>run := False\<rparr>)\<rparr>)))) 2)
   \<and> ''before_fit'' \<noteq> ''after_fit''
   \<and> \<not> run (objs (fst (snd (Callback_call (example_env never) 2 ''before_fit''
        (example_learner\<lparr>objs := example_objs(2 := (example_objs 2)\<lparr>run := False\<rparr>)\<rparr>)))) 2)"
proof -
  let ?s = "example_learner\<lparr>objs := example_objs(2 := (example_objs 2)\<lparr>run := False\<rparr>)\<rparr>"
  have h: "\<not> run (objs ?s 2)"
    by simp
  have n: "''before_fit'' \<noteq> ''after_fit''"
    by simp
  from h after_fit_resets_run [of "example_env never" 2 ?s "''before_fit''"]
  have a: "run (objs (fst (snd (Callback_call (example_env never) 2 ''after_fit'' ?s))) 2)"
    by simp
  from h n after_fit_resets_run [of "example_env never" 2 ?s "''before_fit''"]
  have b: "\<not> run (objs (fst (snd (Callback_call (example_env never) 2 ''before_fit'' ?s))) 2)"
    by simp
  from h n a b show ?thesis by simp
qed

section \<open>The order of the callbacks\<close>

lemma invoked_Callback_call:
  "invoked (fst (Callback_call E c ev s)) = [] \<or> invoked (fst (Callback_call E c ev s)) = [c]"
  by (auto simp: Callback_call_def split: prod.splits outcome.splits)

lemma invoked_call_cbs: "subseq (invoked (fst (call_cbs E cs ev s))) cs"
proof (induction cs arbitrary: s)
  case Nil
  then show ?case by simp
next
  case (Cons c cs)
  obtain t s1 r where cc: "Callback_call E c ev s = (t, s1, r)"
    by (cases "Callback_call E c ev s") auto
  have hd: "invoked t = [] \<or> invoked t = [c]"
    using invoked_Callback_call [of E c ev s] cc by simp
  show ?case
  proof (cases r)
    case (Raises e)
    with cc hd show ?thesis by (auto simp: subseq_singleton_left)
  next
    case (Returns v)
    with cc hd Cons.IH [of s1] show ?thesis by auto
  qed
qed

lemma invoked_run_cbs_loop: "subseq (invoked (fst (run_cbs_loop meth cs nm s))) cs"
proof (induction cs arbitrary: s)
  case Nil
  then show ?case by simp
next
  case (Cons c cs)
  show ?case
  proof (cases "meth c nm")
    case None
    with Cons.IH [of s] show ?thesis by (simp add: list_emb_Cons)
  next
    case (Some m)
    obtain s1 r where m: "m s = (s1, r)" by (cases "m s") auto
    with Some Cons.IH [of s1] show ?thesis by (cases r) auto
  qed
qed

lemma subseq_sorted_map:
  "subseq xs ys \<Longrightarrow> sorted (map f ys) \<Longrightarrow> sorted (map f xs)"
proof (induction rule: list_emb.induct)
  case (list_emb_Nil ys)
  then show ?case by simp
next
  case (list_emb_Cons xs ys y)
  then show ?case by simp
next
  case (list_emb_Cons2 x y xs ys)
  have "set xs \<subseteq> set ys"
    using list_emb_Cons2.hyps(2) by (auto dest: list_emb_set)
  with list_emb_Cons2 show ?case by auto
qed

lemma subseq_sort_key:
  assumes "subseq xs (sort_key f ys)"
  shows "sorted (map f xs)
         \<and> (\<forall>k. subseq (filter (\<lambda>c. f c = k) xs) (filter (\<lambda>c. f c = k) ys))"
proof
  show "sorted (map f xs)"
    using assms subseq_sorted_map [of xs "sort_key f ys" f] by simp
  show "\<forall>k. subseq (filter (\<lambda>c. f c = k) xs) (filter (\<lambda>c. f c = k) ys)"
  proof
    fix k
    have "subseq (filter (\<lambda>c. f c = k) xs) (filter (\<lambda>c. f c = k) (sort_key f ys))"
      using assms by (rule subseq_filter)
    then show "subseq (filter (\<lambda>c. f c = k) xs) (filter (\<lambda>c. f c = k) ys)"
      by (simp add: sort_key_stable)
  qed
qed

lemma invoked_learner_call:
  "subseq (invoked (fst (learner_call E ev s))) (sort_key (\<lambda>c. order (objs s c)) (cbs s))"
  by (simp add: learner_call_def call_one_def invoked_call_cbs)

text \<open>
  C3: in a call of the learner with any event, in any state, the callbacks whose
  methods are called come in non-decreasing \<^verbatim>\<open>order\<close>, and those of one \<^verbatim>\<open>order\<close>
  come in the order in which they stand in \<^verbatim>\<open>cbs\<close>, the order of registration.  The
  \<^verbatim>\<open>order\<close> is the one the callbacks have when the call starts.  The same holds for
  \<^verbatim>\<open>run_cbs\<close> of the MiniAI learner.
\<close>

theorem dispatch_order:
  "sorted (map (\<lambda>c. order (objs s c)) (invoked (fst (learner_call E ev s))))
   \<and> (\<forall>k. subseq (filter (\<lambda>c. order (objs s c) = k) (invoked (fst (learner_call E ev s))))
                   (filter (\<lambda>c. order (objs s c) = k) (cbs s)))
   \<and> sorted (map ord (invoked (fst (run_cbs ord meth cs nm s'))))
   \<and> (\<forall>k. subseq (filter (\<lambda>c. ord c = k) (invoked (fst (run_cbs ord meth cs nm s'))))
                   (filter (\<lambda>c. ord c = k) cs))"
proof -
  have a: "subseq (invoked (fst (run_cbs ord meth cs nm s'))) (sort_key ord cs)"
    by (simp add: run_cbs_def invoked_run_cbs_loop)
  from subseq_sort_key [OF invoked_learner_call [of E ev s]] subseq_sort_key [OF a]
  show ?thesis by simp
qed

theorem dispatch_order_witness:
  "invoked (fst (learner_call (example_env never) ''before_fit'' example_learner)) = [0, 2, 3, 1]
   \<and> map (\<lambda>c. order (objs example_learner c)) [0, 2, 3, 1] = [- 10, 0, 0, 50]
   \<and> cbs example_learner = [1, 2, 0, 3]
   \<and> sorted (map (\<lambda>c. order (objs example_learner c))
       (invoked (fst (learner_call (example_env never) ''before_fit'' example_learner))))
   \<and> subseq (filter (\<lambda>c. order (objs example_learner c) = 0)
               (invoked (fst (learner_call (example_env never) ''before_fit'' example_learner))))
            (filter (\<lambda>c. order (objs example_learner c) = 0) (cbs example_learner))"
proof -
  have a: "invoked (fst (learner_call (example_env never) ''before_fit'' example_learner))
             = [0, 2, 3, 1]"
    by code_simp
  have b: "map (\<lambda>c. order (objs example_learner c)) [0, 2, 3, 1] = [- 10, 0, 0, 50]"
    by (simp add: example_defs)
  have c: "cbs example_learner = [1, 2, 0, 3]"
    by (simp add: example_defs)
  note d = dispatch_order [of example_learner "example_env never" "''before_fit''"
      "\<lambda>c. 0" "\<lambda>c nm. None" "[]" "''before_fit''" "()"]
  from d have e: "sorted (map (\<lambda>c. order (objs example_learner c))
       (invoked (fst (learner_call (example_env never) ''before_fit'' example_learner))))"
    by (rule conjunct1)
  from d have "\<forall>k. subseq (filter (\<lambda>c. order (objs example_learner c) = k)
               (invoked (fst (learner_call (example_env never) ''before_fit'' example_learner))))
            (filter (\<lambda>c. order (objs example_learner c) = k) (cbs example_learner))"
    by (rule conjunct1 [OF conjunct2])
  then have f: "subseq (filter (\<lambda>c. order (objs example_learner c) = 0)
               (invoked (fst (learner_call (example_env never) ''before_fit'' example_learner))))
            (filter (\<lambda>c. order (objs example_learner c) = 0) (cbs example_learner))"
    by (rule spec)
  from a b c e f show ?thesis by (intro conjI)
qed

section \<open>Counting the calls of the learner\<close>

lemma dispatches_Nil [simp]: "dispatches ev [] = 0"
  by (simp add: dispatches_def)

lemma dispatches_append [simp]: "dispatches ev (t @ u) = dispatches ev t + dispatches ev u"
  by (simp add: dispatches_def)

lemma dispatches_Cons:
  "dispatches ev (x # t) = (if x = Dispatch ev then 1 else 0) + dispatches ev t"
  by (simp add: dispatches_def)

lemma dispatches_noop [simp]: "dispatches ev (fst (noop s)) = 0"
  by (simp add: noop_def)

lemma dispatches_assign [simp]: "dispatches ev (fst (assign f s)) = 0"
  by (simp add: assign_def)

lemma dispatches_prim [simp]: "dispatches ev (fst (prim nm f s)) = 0"
  by (simp add: prim_def dispatches_Cons split: prod.splits option.splits)

lemma dispatches_seq:
  assumes "\<And>s1. dispatches ev (fst (c2 s1)) = 0"
  shows "dispatches ev (fst (seq c1 c2 s)) = dispatches ev (fst (c1 s))"
  by (simp add: seq_def assms split: prod.splits option.splits)

lemma dispatches_try:
  assumes "\<And>s1. dispatches ev (fst (h s1)) = 0"
  shows "dispatches ev (fst (try_except c ex h s)) = dispatches ev (fst (c s))"
  by (simp add: try_except_def assms split: prod.splits option.splits)

lemma dispatches_for_each_zero:
  assumes "\<And>x s1. dispatches ev (fst (body x s1)) = 0"
  shows "dispatches ev (fst (for_each xs body s)) = 0"
proof (induction xs arbitrary: s)
  case Nil
  show ?case by simp
next
  case (Cons x xs)
  show ?case by (simp add: dispatches_seq Cons.IH assms)
qed

lemma dispatches_Callback_call [simp]: "dispatches ev' (fst (Callback_call E c ev s)) = 0"
  by (simp add: Callback_call_def dispatches_Cons split: prod.splits outcome.splits)

lemma dispatches_call_cbs [simp]: "dispatches ev' (fst (call_cbs E cs ev s)) = 0"
proof (induction cs arbitrary: s)
  case Nil
  show ?case by simp
next
  case (Cons c cs)
  obtain t s1 r where cc: "Callback_call E c ev s = (t, s1, r)"
    by (cases "Callback_call E c ev s") auto
  have "dispatches ev' t = 0"
    using dispatches_Callback_call [of ev' E c ev s] cc by simp
  with cc Cons.IH [of s1] show ?case by (cases r) simp_all
qed

lemma dispatches_learner_call:
  "dispatches ev' (fst (learner_call E ev s)) = (if ev' = ev then 1 else 0)"
  by (auto simp: learner_call_def call_one_def dispatches_Cons)

lemma dispatches_with_events:
  assumes "\<And>s1. dispatches ev (fst (f s1)) = 0" and "\<And>s1. dispatches ev (fst (final s1)) = 0"
    and "ev \<noteq> ''after_cancel_'' @ et" and "ev \<noteq> ''after_'' @ et"
  shows "dispatches ev (fst (with_events E f et ex final s)) =
           (if ev = ''before_'' @ et then 1 else 0)"
proof -
  have a: "\<And>s1. dispatches ev (fst (learner_call E (''after_cancel_'' @ et) s1)) = 0"
    using assms(3) by (simp add: dispatches_learner_call)
  have b: "\<And>s1. dispatches ev (fst (learner_call E (''after_'' @ et) s1)) = 0"
    using assms(4) by (simp add: dispatches_learner_call)
  let ?before = "learner_call E (''before_'' @ et)"
  let ?cancel = "learner_call E (''after_cancel_'' @ et)"
  let ?after = "learner_call E (''after_'' @ et)"
  have "dispatches ev (fst (with_events E f et ex final s)) =
          dispatches ev (fst (seq (try_except (seq ?before f) ex ?cancel) ?after s))"
    unfolding with_events_def by (rule dispatches_seq) (rule assms(2))
  also have "\<dots> = dispatches ev (fst (try_except (seq ?before f) ex ?cancel s))"
    by (rule dispatches_seq) (rule b)
  also have "\<dots> = dispatches ev (fst (seq ?before f s))"
    by (rule dispatches_try) (rule a)
  also have "\<dots> = dispatches ev (fst (?before s))"
    by (rule dispatches_seq) (rule assms(1))
  finally show ?thesis
    by (simp only: dispatches_learner_call)
qed

subsection \<open>Events that one batch does not dispatch\<close>

lemma dispatches_step [simp]: "dispatches ev (fst (step E s)) = 0"
  by (simp add: step_def ext_call_def)

lemma dispatches_backward [simp]: "dispatches ev (fst (backward E s)) = 0"
  by (simp add: backward_def ext_call_def split: option.splits)

lemma dispatches_update_step:
  assumes "ev \<notin> {''before_backward'', ''after_cancel_backward'', ''after_backward'',
                  ''before_step'', ''after_cancel_step'', ''after_step''}"
  shows "dispatches ev (fst (update_step E s)) = 0"
proof (cases "training s")
  case None
  then show ?thesis by (simp add: update_step_def)
next
  case (Some tr)
  show ?thesis
  proof (cases "\<not> tr \<or> yb s = []")
    case True
    with Some show ?thesis by (auto simp: update_step_def)
  next
    case False
    have z: "\<And>s1. dispatches ev (fst (ext_call ''opt.zero_grad'' (opt_zero_grad E) s1)) = 0"
      by (simp add: ext_call_def)
    have st: "\<And>s1. dispatches ev
        (fst (with_events E (step E) ''step'' (is_a CancelStepException) noop s1)) = 0"
      using assms by (subst dispatches_with_events) simp_all
    have bw: "\<And>s1. dispatches ev
        (fst (with_events E (backward E) ''backward'' (is_a CancelBackwardException) noop s1)) = 0"
      using assms by (subst dispatches_with_events) simp_all
    have "dispatches ev (fst
       (seq (with_events E (backward E) ''backward'' (is_a CancelBackwardException) noop)
          (seq (with_events E (step E) ''step'' (is_a CancelStepException) noop)
             (ext_call ''opt.zero_grad'' (opt_zero_grad E))) s)) = 0"
      by (simp add: dispatches_seq z st bw)
    with Some False show ?thesis by (simp add: update_step_def)
  qed
qed

lemma dispatches_do_one_batch:
  assumes "ev \<notin> {''after_pred'', ''after_loss'', ''before_backward'', ''after_cancel_backward'',
                  ''after_backward'', ''before_step'', ''after_cancel_step'', ''after_step''}"
  shows "dispatches ev (fst (do_one_batch E s)) = 0"
proof -
  have u: "\<And>s1. dispatches ev (fst (update_step E s1)) = 0"
    using assms by (intro dispatches_update_step) simp
  have al: "\<And>s1. dispatches ev (fst (learner_call E ''after_loss'' s1)) = 0"
    using assms by (simp add: dispatches_learner_call)
  have ap: "\<And>s1. dispatches ev (fst (learner_call E ''after_pred'' s1)) = 0"
    using assms by (simp add: dispatches_learner_call)
  have l: "\<And>s1. dispatches ev (fst (if yb s1 \<noteq> [] then compute_loss E s1 else ([], s1, None))) = 0"
    by (simp add: compute_loss_def)
  have 4: "\<And>s1. dispatches ev (fst (seq (learner_call E ''after_loss'') (update_step E) s1)) = 0"
    by (simp add: dispatches_seq u al)
  have 3: "\<And>s1. dispatches ev (fst (seq (\<lambda>s. if yb s \<noteq> [] then compute_loss E s else ([], s, None))
             (seq (learner_call E ''after_loss'') (update_step E)) s1)) = 0"
    by (subst dispatches_seq) (rule 4, rule l)
  have 2: "\<And>s1. dispatches ev (fst (seq (learner_call E ''after_pred'')
          (seq (\<lambda>s. if yb s \<noteq> [] then compute_loss E s else ([], s, None))
             (seq (learner_call E ''after_loss'') (update_step E))) s1)) = 0"
    by (subst dispatches_seq) (rule 3, rule ap)
  show ?thesis
    unfolding do_one_batch_def
    by (subst dispatches_seq) (rule 2, simp add: model_pred_def)
qed

section \<open>One phase: \<^verbatim>\<open>_with_events\<close>\<close>

lemma seq_assoc: "seq (seq a b) c s = seq a (seq b c) s"
  by (simp add: seq_def prepend_def split: prod.splits option.splits)

lemma try_seq_normal:
  assumes "c s = (t2, s2, None)"
  shows "seq (seq (try_except c ex h) a) final s = prepend t2 (seq a final s2)"
  using assms by (simp add: seq_assoc seq_None try_None)

lemma seq_prepend:
  assumes "c1 s = prepend t (c1' s')"
  shows "seq c1 c2 s = prepend t (seq c1' c2 s')"
proof -
  obtain t1 s1 r1 where c: "c1' s' = (t1, s1, r1)" by (cases "c1' s'") auto
  with assms show ?thesis by (cases r1) (simp_all add: seq_def)
qed

lemma try_seq_cancelled:
  assumes "c s = (t2, s2, Some e)" and "ex e"
  shows "seq (seq (try_except c ex h) a) final s = prepend t2 (seq h (seq a final) s2)"
proof -
  have "try_except c ex h s = prepend t2 (h s2)"
    using assms by (rule try_caught)
  then have "seq (try_except c ex h) (seq a final) s = prepend t2 (seq h (seq a final) s2)"
    by (rule seq_prepend)
  then show ?thesis by (simp add: seq_assoc)
qed

lemma try_seq_other:
  assumes "c s = (t2, s2, Some e)" and "\<not> ex e"
  shows "seq (seq (try_except c ex h) a) final s = (t2, s2, Some e)"
  using assms by (simp add: seq_assoc seq_Some try_uncaught)

lemma with_events_normal:
  assumes "seq (learner_call E (''before_'' @ et)) f s = (t2, s2, None)"
  shows "with_events E f et ex final s =
           prepend t2 (seq (learner_call E (''after_'' @ et)) final s2)"
  unfolding with_events_def using assms by (rule try_seq_normal)

lemma with_events_cancelled:
  assumes "seq (learner_call E (''before_'' @ et)) f s = (t2, s2, Some e)" and "ex e"
  shows "with_events E f et ex final s =
           prepend t2 (seq (learner_call E (''after_cancel_'' @ et))
                        (seq (learner_call E (''after_'' @ et)) final) s2)"
  unfolding with_events_def using assms by (rule try_seq_cancelled)

lemma with_events_other:
  assumes "seq (learner_call E (''before_'' @ et)) f s = (t2, s2, Some e)" and "\<not> ex e"
  shows "with_events E f et ex final s = (t2, s2, Some e)"
  unfolding with_events_def using assms by (rule try_seq_other)

lemma before_first:
  assumes "seq (learner_call E ev) f s = (t2, s2, r2)"
  shows "\<exists>t. t2 = Dispatch ev # t"
proof -
  obtain t1 s1 r1 where c: "call_one E ev s = (t1, s1, r1)" by (cases "call_one E ev s") auto
  obtain tf sf rf where f: "f s1 = (tf, sf, rf)" by (cases "f s1") auto
  from assms c f show ?thesis
    by (cases r1) (auto simp: seq_def learner_call_def)
qed

text \<open>
  C1: \<^verbatim>\<open>_with_events\<close> first calls the learner with \<^verbatim>\<open>before_\<close> and then runs the
  body (the run of both is \<open>(t2, s2, r2)\<close>).  When that raised nothing, the learner is
  called with \<^verbatim>\<open>after_\<close> and then \<open>final\<close> runs.  When it raised an instance of
  \<open>ex\<close>, the learner is called with \<^verbatim>\<open>after_cancel_\<close>, then with \<^verbatim>\<open>after_\<close>, then
  \<open>final\<close> runs, and the exception is gone.  Each of these calls happens once, and a
  later step runs when the steps before it raised nothing.  Any other exception leaves
  \<^verbatim>\<open>_with_events\<close> at once.
\<close>

theorem with_events_phase:
  assumes step2: "seq (learner_call E (''before_'' @ et)) f s = (t2, s2, r2)"
  shows "(\<exists>t. t2 = Dispatch (''before_'' @ et) # t)
     \<and> (r2 = None \<longrightarrow>
          with_events E f et ex final s =
            prepend t2 (seq (learner_call E (''after_'' @ et)) final s2)
          \<and> (\<forall>ta sa. learner_call E (''after_'' @ et) s2 = (ta, sa, None) \<longrightarrow>
                with_events E f et ex final s = prepend (t2 @ ta) (final sa)
                \<and> dispatches (''after_'' @ et) ta = 1))
     \<and> (\<forall>e. r2 = Some e \<and> ex e \<longrightarrow>
          with_events E f et ex final s =
            prepend t2 (seq (learner_call E (''after_cancel_'' @ et))
                         (seq (learner_call E (''after_'' @ et)) final) s2)
          \<and> (\<forall>tc sc ta sa.
                learner_call E (''after_cancel_'' @ et) s2 = (tc, sc, None)
                \<and> learner_call E (''after_'' @ et) sc = (ta, sa, None) \<longrightarrow>
                with_events E f et ex final s = prepend (t2 @ tc @ ta) (final sa)
                \<and> dispatches (''after_cancel_'' @ et) tc = 1
                \<and> dispatches (''after_'' @ et) (tc @ ta) = 1))
     \<and> (\<forall>e. r2 = Some e \<and> \<not> ex e \<longrightarrow> with_events E f et ex final s = (t2, s2, Some e))"
proof (intro conjI allI impI)
  show "\<exists>t. t2 = Dispatch (''before_'' @ et) # t"
    using step2 by (rule before_first)
next
  assume "r2 = None"
  with step2 show "with_events E f et ex final s =
      prepend t2 (seq (learner_call E (''after_'' @ et)) final s2)"
    by (simp add: with_events_normal)
next
  fix ta sa
  assume "r2 = None" and a: "learner_call E (''after_'' @ et) s2 = (ta, sa, None)"
  with step2 show "with_events E f et ex final s = prepend (t2 @ ta) (final sa)"
    by (simp add: with_events_normal seq_None)
next
  fix ta sa
  assume a: "learner_call E (''after_'' @ et) s2 = (ta, sa, None)"
  from dispatches_learner_call [of "''after_'' @ et" E "''after_'' @ et" s2] a
  show "dispatches (''after_'' @ et) ta = 1" by simp
next
  fix e assume "r2 = Some e \<and> ex e"
  with step2 show "with_events E f et ex final s =
      prepend t2 (seq (learner_call E (''after_cancel_'' @ et))
                   (seq (learner_call E (''after_'' @ et)) final) s2)"
    by (simp add: with_events_cancelled)
next
  fix e tc sc ta sa
  assume "r2 = Some e \<and> ex e"
    and "learner_call E (''after_cancel_'' @ et) s2 = (tc, sc, None)
         \<and> learner_call E (''after_'' @ et) sc = (ta, sa, None)"
  with step2 show "with_events E f et ex final s = prepend (t2 @ tc @ ta) (final sa)"
    by (simp add: with_events_cancelled seq_None)
next
  fix e tc sc ta sa
  assume "learner_call E (''after_cancel_'' @ et) s2 = (tc, sc, None)
         \<and> learner_call E (''after_'' @ et) sc = (ta, sa, None)"
  then have c: "learner_call E (''after_cancel_'' @ et) s2 = (tc, sc, None)"
    and a: "learner_call E (''after_'' @ et) sc = (ta, sa, None)" by simp_all
  from dispatches_learner_call [of "''after_cancel_'' @ et" E "''after_cancel_'' @ et" s2] c
  show "dispatches (''after_cancel_'' @ et) tc = 1" by simp
  from dispatches_learner_call [of "''after_'' @ et" E "''after_cancel_'' @ et" s2] c
    dispatches_learner_call [of "''after_'' @ et" E "''after_'' @ et" sc] a
  show "dispatches (''after_'' @ et) (tc @ ta) = 1" by simp
next
  fix e assume "r2 = Some e \<and> \<not> ex e"
  with step2 show "with_events E f et ex final s = (t2, s2, Some e)"
    by (simp add: with_events_other)
qed

theorem with_events_phase_witness:
  "snd (snd (seq (learner_call (example_env cancel_batch_on_after_pred) (''before_'' @ ''batch''))
               (do_one_batch (example_env cancel_batch_on_after_pred))
               (example_learner\<lparr>xb := [1], yb := [2]\<rparr>)))
     = Some (Cancel CancelBatchException)
   \<and> is_a CancelBatchException (Cancel CancelBatchException)
   \<and> with_events (example_env cancel_batch_on_after_pred)
        (do_one_batch (example_env cancel_batch_on_after_pred)) ''batch''
        (is_a CancelBatchException) noop (example_learner\<lparr>xb := [1], yb := [2]\<rparr>)
     = ([Dispatch ''before_batch'', Invoke 2 ''before_batch'', Invoke 3 ''before_batch'',
         Invoke 1 ''before_batch'', Ext ''model'',
         Dispatch ''after_pred'', Invoke 2 ''after_pred'', Raised (Cancel CancelBatchException),
         Dispatch ''after_cancel_batch'', Invoke 2 ''after_cancel_batch'',
         Invoke 3 ''after_cancel_batch'', Invoke 1 ''after_cancel_batch'',
         Dispatch ''after_batch'', Invoke 2 ''after_batch'', Invoke 3 ''after_batch'',
         Invoke 1 ''after_batch''],
        example_learner\<lparr>xb := [1], yb := [2], pred := Some 1\<rparr>, None)"
proof -
  let ?E = "example_env cancel_batch_on_after_pred"
  let ?s = "example_learner\<lparr>xb := [1], yb := [2]\<rparr>"
  let ?r2 = "seq (learner_call ?E (''before_'' @ ''batch'')) (do_one_batch ?E) ?s"
  let ?s2 = "example_learner\<lparr>xb := [1], yb := [2], pred := Some 1\<rparr>"
  have r2: "?r2 = ([Dispatch ''before_batch'', Invoke 2 ''before_batch'',
         Invoke 3 ''before_batch'', Invoke 1 ''before_batch'', Ext ''model'',
         Dispatch ''after_pred'', Invoke 2 ''after_pred'', Raised (Cancel CancelBatchException)],
         ?s2, Some (Cancel CancelBatchException))"
    by (simp add: seq_def learner_call_def call_one_def Callback_call_def gate_def
        getattr_training_def reset_run_def do_one_batch_def model_pred_def prim_def
        example_defs cancel_batch_on_after_pred_def)
  have rc: "learner_call ?E (''after_cancel_'' @ ''batch'') ?s2 =
         ([Dispatch ''after_cancel_batch'', Invoke 2 ''after_cancel_batch'',
           Invoke 3 ''after_cancel_batch'', Invoke 1 ''after_cancel_batch''], ?s2, None)"
    by (simp add: learner_call_def call_one_def Callback_call_def gate_def
        getattr_training_def reset_run_def example_defs cancel_batch_on_after_pred_def)
  have ra: "learner_call ?E (''after_'' @ ''batch'') ?s2 =
         ([Dispatch ''after_batch'', Invoke 2 ''after_batch'',
           Invoke 3 ''after_batch'', Invoke 1 ''after_batch''], ?s2, None)"
    by (simp add: learner_call_def call_one_def Callback_call_def gate_def
        getattr_training_def reset_run_def example_defs cancel_batch_on_after_pred_def)
  have ex: "is_a CancelBatchException (Cancel CancelBatchException)" by (simp add: is_a_def)
  note w = with_events_phase [where ex = "is_a CancelBatchException" and final = noop, OF r2]
  from w ex rc ra
  have "with_events ?E (do_one_batch ?E) ''batch'' (is_a CancelBatchException) noop ?s
          = prepend ([Dispatch ''before_batch'', Invoke 2 ''before_batch'',
         Invoke 3 ''before_batch'', Invoke 1 ''before_batch'', Ext ''model'',
         Dispatch ''after_pred'', Invoke 2 ''after_pred'', Raised (Cancel CancelBatchException)]
          @ [Dispatch ''after_cancel_batch'', Invoke 2 ''after_cancel_batch'',
           Invoke 3 ''after_cancel_batch'', Invoke 1 ''after_cancel_batch'']
          @ [Dispatch ''after_batch'', Invoke 2 ''after_batch'',
           Invoke 3 ''after_batch'', Invoke 1 ''after_batch'']) (noop ?s2)"
    by blast
  then show ?thesis using r2 ex by (simp add: noop_def)
qed

section \<open>\<^verbatim>\<open>CancelFitException\<close> ends the fit\<close>

subsection \<open>The exception is raised last\<close>

lemma cf_last_noop: "cf_last (noop s)"
  by (simp add: cf_last_def noop_def)

lemma cf_last_nil: "cf_last ([], s, e)"
  by (simp add: cf_last_def)

lemma cf_last_assign: "cf_last (assign f s)"
  by (simp add: cf_last_def assign_def)

lemma cf_last_prim: "cf_last (prim nm f s)"
  by (auto simp: cf_last_def prim_def cf_raised_def split: prod.splits option.splits)

lemma cf_last_seq:
  assumes "cf_last (c1 s)" and "\<And>s1. cf_last (c2 s1)"
  shows "cf_last (seq c1 c2 s)"
proof -
  obtain t1 s1 r1 where c1: "c1 s = (t1, s1, r1)" by (cases "c1 s") auto
  obtain t2 s2 r2 where c2: "c2 s1 = (t2, s2, r2)" by (cases "c2 s1") auto
  show ?thesis
  proof (cases r1)
    case None
    with assms(1) c1 have "cf_raised \<notin> set t1" by (auto simp: cf_last_def)
    moreover from assms(2) [of s1] c2 have "cf_last (t2, s2, r2)" by simp
    ultimately show ?thesis using c1 c2 None
      by (auto simp: seq_None cf_last_def butlast_append dest: in_set_butlastD)
  next
    case (Some e)
    with assms(1) c1 show ?thesis by (simp add: seq_Some)
  qed
qed

lemma cf_last_try:
  assumes "cf_last (c s)" and "\<And>s1. cf_last (h s1)" and "\<not> ex (Cancel CancelFitException)"
  shows "cf_last (try_except c ex h s)"
proof -
  obtain t1 s1 r1 where c1: "c s = (t1, s1, r1)" by (cases "c s") auto
  obtain t2 s2 r2 where c2: "h s1 = (t2, s2, r2)" by (cases "h s1") auto
  show ?thesis
  proof (cases r1)
    case None
    with assms(1) c1 show ?thesis by (simp add: try_None)
  next
    case (Some e)
    show ?thesis
    proof (cases "ex e")
      case True
      with assms(3) have "e \<noteq> Cancel CancelFitException" by auto
      with assms(1) c1 Some have "cf_raised \<notin> set t1" by (auto simp: cf_last_def)
      moreover from assms(2) [of s1] c2 have "cf_last (t2, s2, r2)" by simp
      ultimately show ?thesis using c1 c2 Some True
        by (auto simp: try_caught cf_last_def butlast_append dest: in_set_butlastD)
    next
      case False
      with assms(1) c1 Some show ?thesis by (simp add: try_uncaught)
    qed
  qed
qed

lemma cf_last_for_each:
  assumes "\<And>x s1. cf_last (body x s1)"
  shows "cf_last (for_each xs body s)"
proof (induction xs arbitrary: s)
  case Nil
  show ?case by (simp add: cf_last_nil)
next
  case (Cons x xs)
  show ?case by (simp add: cf_last_seq assms Cons.IH)
qed

lemma cf_last_Callback_call:
  "Callback_call E c ev s = (t, s1, r) \<Longrightarrow>
     cf_raised \<notin> set (butlast t)
     \<and> (cf_raised \<in> set t \<longrightarrow> r = Raises (Cancel CancelFitException))
     \<and> (\<forall>v. r = Returns v \<longrightarrow> cf_raised \<notin> set t)"
  by (auto simp: Callback_call_def cf_raised_def split: if_splits prod.splits outcome.splits)

lemma cf_last_call_cbs: "cf_last (call_cbs E cs ev s)"
proof (induction cs arbitrary: s)
  case Nil
  show ?case by (simp add: cf_last_nil)
next
  case (Cons c cs)
  obtain t s1 r where cc: "Callback_call E c ev s = (t, s1, r)"
    by (cases "Callback_call E c ev s") auto
  note h = cf_last_Callback_call [OF cc]
  show ?case
  proof (cases r)
    case (Raises e)
    with cc h show ?thesis by (auto simp: cf_last_def)
  next
    case (Returns v)
    obtain t2 s2 r2 where rest: "call_cbs E cs ev s1 = (t2, s2, r2)"
      by (cases "call_cbs E cs ev s1") auto
    from Cons.IH [of s1] rest have "cf_last (t2, s2, r2)" by simp
    with cc h Returns rest show ?thesis
      by (auto simp: cf_last_def butlast_append dest: in_set_butlastD)
  qed
qed

lemma cf_last_call_one: "cf_last (call_one E ev s)"
  by (simp add: call_one_def cf_last_nil cf_last_call_cbs)

lemma cf_last_prepend_Dispatch: "cf_last r \<Longrightarrow> cf_last (prepend [Dispatch ev] r)"
  by (cases r) (auto simp: cf_last_def cf_raised_def butlast_append)

lemma cf_last_learner_call: "cf_last (learner_call E ev s)"
  by (simp add: learner_call_def cf_last_prepend_Dispatch cf_last_call_one)

lemma cf_last_with_events:
  assumes "\<And>s1. cf_last (f s1)" and "\<And>s1. cf_last (final s1)"
    and "\<not> ex (Cancel CancelFitException)"
  shows "cf_last (with_events E f et ex final s)"
  unfolding with_events_def
  by (intro cf_last_seq cf_last_try cf_last_learner_call assms)


subsection \<open>Through the training loop\<close>

lemma not_is_a [simp]: "k \<noteq> CancelFitException \<Longrightarrow> \<not> is_a k (Cancel CancelFitException)"
  by (auto simp: is_a_def)

lemma cf_last_step: "cf_last (step E s)"
  by (simp add: step_def ext_call_def cf_last_prim)

lemma cf_last_backward: "cf_last (backward E s)"
  by (simp add: backward_def ext_call_def cf_last_prim cf_last_nil split: option.splits)

lemma cf_last_update_step: "cf_last (update_step E s)"
proof (cases "training s")
  case None
  then show ?thesis by (simp add: update_step_def cf_last_nil)
next
  case (Some tr)
  show ?thesis
  proof (cases "\<not> tr \<or> yb s = []")
    case True
    with Some show ?thesis by (auto simp: update_step_def cf_last_nil)
  next
    case False
    have "cf_last
       (seq (with_events E (backward E) ''backward'' (is_a CancelBackwardException) noop)
          (seq (with_events E (step E) ''step'' (is_a CancelStepException) noop)
             (ext_call ''opt.zero_grad'' (opt_zero_grad E))) s)"
      by (intro cf_last_seq cf_last_with_events cf_last_backward cf_last_step cf_last_noop)
        (simp_all add: ext_call_def cf_last_prim)
    with Some False show ?thesis by (simp add: update_step_def)
  qed
qed

lemma cf_last_do_one_batch: "cf_last (do_one_batch E s)"
  unfolding do_one_batch_def model_pred_def compute_loss_def
  by (intro cf_last_seq cf_last_learner_call cf_last_update_step cf_last_prim)
    (simp add: cf_last_nil cf_last_prim)

lemma cf_last_one_batch: "cf_last (one_batch E o' s)"
  unfolding one_batch_def set_device_split_def
  by (intro cf_last_seq cf_last_with_events cf_last_do_one_batch cf_last_noop cf_last_prim
      cf_last_assign) simp

lemma cf_last_all_batches: "cf_last (all_batches E s)"
  unfolding all_batches_def
  by (intro cf_last_seq cf_last_for_each cf_last_one_batch cf_last_assign)

lemma cf_last_do_epoch: "cf_last (do_epoch E s)"
  unfolding do_epoch_def do_epoch_train_def do_epoch_validate_def
  by (intro cf_last_seq cf_last_with_events cf_last_all_batches cf_last_noop cf_last_assign)
    simp_all

lemma cf_last_do_fit: "cf_last (do_fit E s)"
  unfolding do_fit_def
  by (intro cf_last_for_each cf_last_seq cf_last_with_events cf_last_do_epoch cf_last_noop
      cf_last_assign) simp

subsection \<open>\<^verbatim>\<open>after_fit\<close> is not dispatched inside the body of the fit\<close>

lemma after_fit_one_batch: "dispatches ''after_fit'' (fst (one_batch E o' s)) = 0"
proof -
  have d: "\<And>s1. dispatches ''after_fit'' (fst (do_one_batch E s1)) = 0"
    by (rule dispatches_do_one_batch) simp
  have w: "\<And>s1. dispatches ''after_fit''
      (fst (with_events E (do_one_batch E) ''batch'' (is_a CancelBatchException) noop s1)) = 0"
    by (subst dispatches_with_events) (simp_all add: d)
  have 2: "\<And>s1. dispatches ''after_fit'' (fst (seq (set_device_split E (snd o'))
          (with_events E (do_one_batch E) ''batch'' (is_a CancelBatchException) noop) s1)) = 0"
    by (subst dispatches_seq) (rule w, simp add: set_device_split_def)
  show ?thesis
    unfolding one_batch_def by (subst dispatches_seq) (rule 2, simp)
qed

lemma after_fit_all_batches: "dispatches ''after_fit'' (fst (all_batches E s)) = 0"
  unfolding all_batches_def
  by (subst dispatches_seq) (rule dispatches_for_each_zero, rule after_fit_one_batch, simp)

lemma after_fit_do_epoch: "dispatches ''after_fit'' (fst (do_epoch E s)) = 0"
proof -
  have v: "\<And>s1. dispatches ''after_fit'' (fst (do_epoch_validate E s1)) = 0"
    unfolding do_epoch_validate_def
    by (subst dispatches_seq, subst dispatches_with_events)
      (simp_all add: after_fit_all_batches)
  have t: "\<And>s1. dispatches ''after_fit'' (fst (do_epoch_train E s1)) = 0"
    unfolding do_epoch_train_def
    by (subst dispatches_seq, subst dispatches_with_events)
      (simp_all add: after_fit_all_batches)
  show ?thesis
    unfolding do_epoch_def by (subst dispatches_seq) (rule v, rule t)
qed

lemma after_fit_do_fit: "dispatches ''after_fit'' (fst (do_fit E s)) = 0"
proof -
  have e: "\<And>ep s1. dispatches ''after_fit'' (fst (seq (assign (\<lambda>s. s\<lparr>epoch := ep\<rparr>))
       (with_events E (do_epoch E) ''epoch'' (is_a CancelEpochException) noop) s1)) = 0"
    by (subst dispatches_seq, subst dispatches_with_events)
      (simp_all add: after_fit_do_epoch)
  show ?thesis
    unfolding do_fit_def by (rule dispatches_for_each_zero) (rule e)
qed

lemma fit_body_cf_last: "cf_last (seq (learner_call E ''before_fit'') (do_fit E) s)"
  by (intro cf_last_seq cf_last_learner_call cf_last_do_fit)

lemma fit_body_after_fit:
  "dispatches ''after_fit'' (fst (seq (learner_call E ''before_fit'') (do_fit E) s)) = 0"
  by (subst dispatches_seq) (rule after_fit_do_fit, simp add: dispatches_learner_call)

lemma fit_unfold:
  assumes "fit_setup E s = (s0, None)"
  shows "fit E n s =
     prepend [Ext ''fit_setup'']
       (with_events E (do_fit E) ''fit'' (is_a CancelFitException)
          (prim ''_end_cleanup'' (end_cleanup E)) (s0\<lparr>n_epoch := n\<rparr>))"
  using assms by (simp add: fit_def seq_def prim_def assign_def)

text \<open>
  C2: let \<^verbatim>\<open>fit\<close> have finished its preparation, and let a
  \<^verbatim>\<open>CancelFitException\<close> be raised anywhere in the \<^verbatim>\<open>before_fit\<close> call or in
  \<^verbatim>\<open>_do_fit\<close>, by a method of a callback or by a collaborator, at any depth of the
  loops (\<open>(t2, s2, r2)\<close> is the run of the two).  Then the raise is the last thing that
  happens there, so no phase inside has caught it or run an \<^verbatim>\<open>after_\<close> event after it;
  no \<^verbatim>\<open>after_fit\<close> was dispatched so far; and \<^verbatim>\<open>fit\<close> goes on with
  \<^verbatim>\<open>after_cancel_fit\<close>, \<^verbatim>\<open>after_fit\<close> and \<^verbatim>\<open>_end_cleanup\<close>, in this order.  When
  these three raise nothing, \<^verbatim>\<open>fit\<close> returns without an exception and its whole run
  holds exactly one \<^verbatim>\<open>after_fit\<close>.  The loops run over finite lists and every method
  returns, so \<^verbatim>\<open>fit\<close> always ends.
\<close>

theorem cancel_fit_ends_fit:
  assumes init: "fit_setup E s = (s0, None)"
    and step2: "seq (learner_call E ''before_fit'') (do_fit E) (s0\<lparr>n_epoch := n\<rparr>) = (t2, s2, r2)"
    and raised: "Raised (Cancel CancelFitException) \<in> set t2"
  shows "r2 = Some (Cancel CancelFitException)
     \<and> last t2 = Raised (Cancel CancelFitException)
     \<and> Raised (Cancel CancelFitException) \<notin> set (butlast t2)
     \<and> dispatches ''after_fit'' t2 = 0
     \<and> fit E n s =
         prepend (Ext ''fit_setup'' # t2)
           (seq (learner_call E ''after_cancel_fit'')
              (seq (learner_call E ''after_fit'') (prim ''_end_cleanup'' (end_cleanup E))) s2)
     \<and> (\<forall>tc sc ta sa sf.
           learner_call E ''after_cancel_fit'' s2 = (tc, sc, None)
           \<and> learner_call E ''after_fit'' sc = (ta, sa, None)
           \<and> end_cleanup E sa = (sf, None) \<longrightarrow>
           fit E n s = (Ext ''fit_setup'' # t2 @ tc @ ta @ [Ext ''_end_cleanup''], sf, None)
           \<and> dispatches ''after_fit''
               (Ext ''fit_setup'' # t2 @ tc @ ta @ [Ext ''_end_cleanup'']) = 1)"
proof -
  from fit_body_cf_last [of E "s0\<lparr>n_epoch := n\<rparr>"] step2
  have nb: "Raised (Cancel CancelFitException) \<notin> set (butlast t2)"
    and "Raised (Cancel CancelFitException) \<in> set t2 \<longrightarrow> r2 = Some (Cancel CancelFitException)"
    by (simp_all add: cf_last_def cf_raised_def)
  with raised have r2: "r2 = Some (Cancel CancelFitException)" by simp
  from raised nb have l: "last t2 = Raised (Cancel CancelFitException)"
    by (rule last_of_not_butlast)
  from fit_body_after_fit [of E "s0\<lparr>n_epoch := n\<rparr>"] step2
  have z: "dispatches ''after_fit'' t2 = 0" by simp
  have step2': "seq (learner_call E (''before_'' @ ''fit'')) (do_fit E) (s0\<lparr>n_epoch := n\<rparr>)
                  = (t2, s2, Some (Cancel CancelFitException))"
    using step2 r2 by simp
  have w: "with_events E (do_fit E) ''fit'' (is_a CancelFitException)
             (prim ''_end_cleanup'' (end_cleanup E)) (s0\<lparr>n_epoch := n\<rparr>) =
           prepend t2 (seq (learner_call E ''after_cancel_fit'')
              (seq (learner_call E ''after_fit'') (prim ''_end_cleanup'' (end_cleanup E))) s2)"
    using with_events_cancelled
      [where ex = "is_a CancelFitException" and final = "prim ''_end_cleanup'' (end_cleanup E)",
        OF step2']
    by (simp add: is_a_def)
  have f: "fit E n s =
         prepend (Ext ''fit_setup'' # t2)
           (seq (learner_call E ''after_cancel_fit'')
              (seq (learner_call E ''after_fit'') (prim ''_end_cleanup'' (end_cleanup E))) s2)"
    by (simp add: fit_unfold [OF init] w)
  have g: "fit E n s = (Ext ''fit_setup'' # t2 @ tc @ ta @ [Ext ''_end_cleanup''], sf, None)
           \<and> dispatches ''after_fit''
               (Ext ''fit_setup'' # t2 @ tc @ ta @ [Ext ''_end_cleanup'']) = 1"
    if h: "learner_call E ''after_cancel_fit'' s2 = (tc, sc, None)
           \<and> learner_call E ''after_fit'' sc = (ta, sa, None)
           \<and> end_cleanup E sa = (sf, None)"
    for tc sc ta sa sf
  proof
    from h show "fit E n s = (Ext ''fit_setup'' # t2 @ tc @ ta @ [Ext ''_end_cleanup''], sf, None)"
      by (simp add: f seq_None prim_def)
    from h dispatches_learner_call [of "''after_fit''" E "''after_cancel_fit''" s2]
      dispatches_learner_call [of "''after_fit''" E "''after_fit''" sc]
    have "dispatches ''after_fit'' tc = 0" and "dispatches ''after_fit'' ta = 1" by simp_all
    with z show "dispatches ''after_fit''
               (Ext ''fit_setup'' # t2 @ tc @ ta @ [Ext ''_end_cleanup'']) = 1"
      by (simp add: dispatches_Cons)
  qed
  from r2 l nb z f g show ?thesis by blast
qed

theorem cancel_fit_ends_fit_witness:
  "fit_setup (example_env cancel_fit_on_after_loss) example_learner = (example_learner, None)
   \<and> Raised (Cancel CancelFitException)
       \<in> set (fst (seq (learner_call (example_env cancel_fit_on_after_loss) ''before_fit'')
                      (do_fit (example_env cancel_fit_on_after_loss))
                      (example_learner\<lparr>n_epoch := 2\<rparr>)))
   \<and> snd (snd (fit (example_env cancel_fit_on_after_loss) 2 example_learner)) = None
   \<and> dispatches ''after_fit'' (fst (fit (example_env cancel_fit_on_after_loss) 2 example_learner))
       = 1
   \<and> last (fst (fit (example_env cancel_fit_on_after_loss) 2 example_learner))
       = Ext ''_end_cleanup''"
proof -
  let ?E = "example_env cancel_fit_on_after_loss"
  let ?r2 = "seq (learner_call ?E ''before_fit'') (do_fit ?E) (example_learner\<lparr>n_epoch := 2\<rparr>)"
  let ?rc = "learner_call ?E ''after_cancel_fit'' (fst (snd ?r2))"
  let ?ra = "learner_call ?E ''after_fit'' (fst (snd ?rc))"
  let ?rf = "end_cleanup ?E (fst (snd ?ra))"
  have init: "fit_setup ?E example_learner = (example_learner, None)"
    by (simp add: example_env_def)
  have raised: "Raised (Cancel CancelFitException) \<in> set (fst ?r2)" by code_simp
  have rc: "snd (snd ?rc) = None" by code_simp
  have ra: "snd (snd ?ra) = None" by code_simp
  have rf: "snd ?rf = None" by (simp add: example_env_def)
  have r2: "?r2 = (fst ?r2, fst (snd ?r2), snd (snd ?r2))" by simp
  from cancel_fit_ends_fit [OF init r2 raised] triple_eq [OF rc] triple_eq [OF ra] pair_eq [OF rf]
  have "fit ?E 2 example_learner
          = (Ext ''fit_setup'' # fst ?r2 @ fst ?rc @ fst ?ra @ [Ext ''_end_cleanup''], fst ?rf, None)
        \<and> dispatches ''after_fit''
            (Ext ''fit_setup'' # fst ?r2 @ fst ?rc @ fst ?ra @ [Ext ''_end_cleanup'']) = 1"
    by blast
  with init raised show ?thesis by simp
qed

section \<open>Validation runs after a cancelled train phase\<close>

subsection \<open>A cancellation that ends a run was raised in it\<close>

lemma cancel_seen_nil_None: "cancel_seen ([], s, None)"
  by (simp add: cancel_seen_def)

lemma cancel_seen_nil_PyException: "cancel_seen ([], s, Some (PyException cls args))"
  by (simp add: cancel_seen_def)

lemma cancel_seen_noop: "cancel_seen (noop s)"
  by (simp add: cancel_seen_def noop_def)

lemma cancel_seen_assign: "cancel_seen (assign f s)"
  by (simp add: cancel_seen_def assign_def)

lemma cancel_seen_prim: "cancel_seen (prim nm f s)"
  by (auto simp: cancel_seen_def prim_def split: prod.splits option.splits)

lemma cancel_seen_prepend: "cancel_seen r \<Longrightarrow> cancel_seen (prepend t r)"
  by (cases r) (auto simp: cancel_seen_def)

lemma cancel_seen_seq:
  assumes "cancel_seen (c1 s)" and "\<And>s1. cancel_seen (c2 s1)"
  shows "cancel_seen (seq c1 c2 s)"
proof -
  obtain t1 s1 r1 where c1: "c1 s = (t1, s1, r1)" by (cases "c1 s") auto
  show ?thesis
  proof (cases r1)
    case None
    with c1 assms(2) [of s1] show ?thesis by (simp add: seq_None cancel_seen_prepend)
  next
    case (Some e)
    with c1 assms(1) show ?thesis by (simp add: seq_Some)
  qed
qed

lemma cancel_seen_try:
  assumes "cancel_seen (c s)" and "\<And>s1. cancel_seen (h s1)"
  shows "cancel_seen (try_except c ex h s)"
proof -
  obtain t1 s1 r1 where c1: "c s = (t1, s1, r1)" by (cases "c s") auto
  show ?thesis
  proof (cases r1)
    case None
    with c1 assms(1) show ?thesis by (simp add: try_None)
  next
    case (Some e)
    with c1 assms(1) assms(2) [of s1] show ?thesis
      by (cases "ex e") (simp_all add: try_caught try_uncaught cancel_seen_prepend)
  qed
qed

lemma cancel_seen_for_each:
  assumes "\<And>x s1. cancel_seen (body x s1)"
  shows "cancel_seen (for_each xs body s)"
proof (induction xs arbitrary: s)
  case Nil
  show ?case by (simp add: cancel_seen_nil_None)
next
  case (Cons x xs)
  show ?case by (simp add: cancel_seen_seq assms Cons.IH)
qed

lemma cancel_seen_Callback_call:
  "Callback_call E c ev s = (t, s1, Raises (Cancel k)) \<Longrightarrow> Raised (Cancel k) \<in> set t"
  by (auto simp: Callback_call_def except_clauses_Cancel
      split: if_splits prod.splits outcome.splits)

lemma cancel_seen_call_cbs: "cancel_seen (call_cbs E cs ev s)"
proof (induction cs arbitrary: s)
  case Nil
  show ?case by (simp add: cancel_seen_nil_None)
next
  case (Cons c cs)
  obtain t s1 r where cc: "Callback_call E c ev s = (t, s1, r)"
    by (cases "Callback_call E c ev s") auto
  show ?case
  proof (cases r)
    case (Raises e)
    with cc cancel_seen_Callback_call [of E c ev s t s1] show ?thesis
      by (auto simp: cancel_seen_def)
  next
    case (Returns v)
    with cc Cons.IH [of s1] show ?thesis by (simp add: cancel_seen_prepend)
  qed
qed

lemma cancel_seen_learner_call: "cancel_seen (learner_call E ev s)"
  by (simp add: learner_call_def call_one_def cancel_seen_prepend cancel_seen_call_cbs
      cancel_seen_nil_PyException)

lemma cancel_seen_with_events:
  assumes "\<And>s1. cancel_seen (f s1)" and "\<And>s1. cancel_seen (final s1)"
  shows "cancel_seen (with_events E f et ex final s)"
  unfolding with_events_def
  by (intro cancel_seen_seq cancel_seen_try cancel_seen_learner_call assms)

lemma cancel_seen_step: "cancel_seen (step E s)"
  by (simp add: step_def ext_call_def cancel_seen_prim)

lemma cancel_seen_backward: "cancel_seen (backward E s)"
  by (simp add: backward_def ext_call_def cancel_seen_prim cancel_seen_nil_PyException
      split: option.splits)

lemma cancel_seen_update_step: "cancel_seen (update_step E s)"
proof (cases "training s")
  case None
  then show ?thesis by (simp add: update_step_def cancel_seen_nil_PyException)
next
  case (Some tr)
  show ?thesis
  proof (cases "\<not> tr \<or> yb s = []")
    case True
    with Some show ?thesis by (auto simp: update_step_def cancel_seen_nil_None)
  next
    case False
    have "cancel_seen
       (seq (with_events E (backward E) ''backward'' (is_a CancelBackwardException) noop)
          (seq (with_events E (step E) ''step'' (is_a CancelStepException) noop)
             (ext_call ''opt.zero_grad'' (opt_zero_grad E))) s)"
      by (intro cancel_seen_seq cancel_seen_with_events cancel_seen_backward cancel_seen_step
          cancel_seen_noop) (simp_all add: ext_call_def cancel_seen_prim)
    with Some False show ?thesis by (simp add: update_step_def)
  qed
qed

lemma cancel_seen_do_one_batch: "cancel_seen (do_one_batch E s)"
  unfolding do_one_batch_def model_pred_def compute_loss_def
  by (intro cancel_seen_seq cancel_seen_learner_call cancel_seen_update_step cancel_seen_prim)
    (simp add: cancel_seen_nil_None cancel_seen_prim)

lemma cancel_seen_one_batch: "cancel_seen (one_batch E o' s)"
  unfolding one_batch_def set_device_split_def
  by (intro cancel_seen_seq cancel_seen_with_events cancel_seen_do_one_batch cancel_seen_noop
      cancel_seen_prim cancel_seen_assign)

lemma cancel_seen_all_batches: "cancel_seen (all_batches E s)"
  unfolding all_batches_def
  by (intro cancel_seen_seq cancel_seen_for_each cancel_seen_one_batch cancel_seen_assign)

subsection \<open>One \<^verbatim>\<open>before_batch\<close> for each batch\<close>

lemma before_batch_one_batch:
  assumes "snd (snd (one_batch E o' s)) = None"
  shows "dispatches ''before_batch'' (fst (one_batch E o' s)) = 1"
proof -
  let ?s1 = "s\<lparr>iter := fst o'\<rparr>"
  obtain t s2 r where d: "set_device_split E (snd o') ?s1 = (t, s2, r)"
    by (cases "set_device_split E (snd o') ?s1") auto
  have "dispatches ''before_batch'' (fst (set_device_split E (snd o') ?s1)) = 0"
    by (simp add: set_device_split_def)
  with d have t: "dispatches ''before_batch'' t = 0" by simp
  have u: "one_batch E o' s =
       seq (set_device_split E (snd o'))
         (with_events E (do_one_batch E) ''batch'' (is_a CancelBatchException) noop) ?s1"
    by (simp add: one_batch_def seq_def assign_def)
  show ?thesis
  proof (cases r)
    case (Some e)
    with d u assms show ?thesis by (simp add: seq_Some)
  next
    case None
    have z: "\<And>s1. dispatches ''before_batch'' (fst (do_one_batch E s1)) = 0"
      by (rule dispatches_do_one_batch) simp
    have "dispatches ''before_batch''
        (fst (with_events E (do_one_batch E) ''batch'' (is_a CancelBatchException) noop s2)) = 1"
      by (subst dispatches_with_events) (simp_all add: z)
    with None d u t show ?thesis by (simp add: seq_None)
  qed
qed

lemma before_batch_for_each:
  assumes "snd (snd (for_each xs (one_batch E) s)) = None"
  shows "dispatches ''before_batch'' (fst (for_each xs (one_batch E) s)) = length xs"
  using assms
proof (induction xs arbitrary: s)
  case Nil
  then show ?case by simp
next
  case (Cons x xs)
  obtain t s1 r where o: "one_batch E x s = (t, s1, r)" by (cases "one_batch E x s") auto
  show ?case
  proof (cases r)
    case (Some e)
    with o Cons.prems show ?thesis by (simp add: seq_Some)
  next
    case None
    with o before_batch_one_batch [of E x s] have "dispatches ''before_batch'' t = 1" by simp
    moreover from None o Cons.prems have "snd (snd (for_each xs (one_batch E) s1)) = None"
      by (simp add: seq_None)
    ultimately show ?thesis using None o Cons.IH [of s1] by (simp add: seq_None)
  qed
qed

lemma before_batch_all_batches:
  assumes "all_batches E s = (t, s', None)"
  shows "dispatches ''before_batch'' t = length (dl s)"
proof -
  have u: "all_batches E s =
       for_each (enumerate 0 (dl s)) (one_batch E) (s\<lparr>n_iter := length (dl s)\<rparr>)"
    by (simp add: all_batches_def seq_def assign_def)
  with assms before_batch_for_each [of "enumerate 0 (dl s)" E "s\<lparr>n_iter := length (dl s)\<rparr>"]
  show ?thesis by simp
qed

lemma validate_all_batches:
  assumes v: "do_epoch_validate E s = (tv, sv, None)"
    and nc: "Raised (Cancel CancelValidException) \<notin> set tv"
    and b: "learner_call E ''before_validate'' (s\<lparr>dl := dls_valid s\<rparr>) = (tb, sb, rb)"
  shows "dispatches ''before_batch'' tv = length (dl sb)"
proof -
  let ?s0 = "s\<lparr>dl := dls_valid s\<rparr>"
  let ?w = "with_events E (all_batches E) ''validate'' (is_a CancelValidException) noop ?s0"
  have u: "do_epoch_validate E s = ?w"
    by (simp add: do_epoch_validate_def seq_def assign_def)
  obtain t2 s2 r2 where
    step2: "seq (learner_call E (''before_'' @ ''validate'')) (all_batches E) ?s0 = (t2, s2, r2)"
    by (cases "seq (learner_call E (''before_'' @ ''validate'')) (all_batches E) ?s0") auto
  have seen: "cancel_seen (t2, s2, r2)"
    using cancel_seen_seq [of "learner_call E (''before_'' @ ''validate'')" ?s0 "all_batches E"]
      cancel_seen_learner_call cancel_seen_all_batches step2 by metis
  show ?thesis
  proof (cases r2)
    case (Some e)
    show ?thesis
    proof (cases "is_a CancelValidException e")
      case True
      with Some seen have "Raised (Cancel CancelValidException) \<in> set t2"
        by (simp add: cancel_seen_def is_a_def)
      moreover from with_events_cancelled
        [where ex = "is_a CancelValidException" and final = noop, OF step2 [unfolded Some] True] u v
      have "\<exists>t. tv = t2 @ t" by (auto simp: prepend_def split: prod.splits)
      ultimately show ?thesis using nc by auto
    next
      case False
      from with_events_other
        [where ex = "is_a CancelValidException" and final = noop, OF step2 [unfolded Some] False] u v
      show ?thesis by simp
    qed
  next
    case None
    obtain ta sa ra where a: "learner_call E (''after_'' @ ''validate'') s2 = (ta, sa, ra)"
      by (cases "learner_call E (''after_'' @ ''validate'') s2") auto
    have za: "dispatches ''before_batch'' ta = 0"
      using dispatches_learner_call [of "''before_batch''" E "''after_'' @ ''validate''" s2] a
      by simp
    have zb: "dispatches ''before_batch'' tb = 0"
      using dispatches_learner_call [of "''before_batch''" E "''before_validate''" ?s0] b
      by simp
    from with_events_normal
      [where ex = "is_a CancelValidException" and final = noop, OF step2 [unfolded None]] u v a
    have tv: "tv = t2 @ ta"
      by (cases ra) (simp_all add: seq_def noop_def)
    from step2 None b have rb: "rb = None"
      by (cases rb) (simp_all add: seq_def)
    with step2 None b obtain t3 s3 where ab: "all_batches E sb = (t3, s3, None)" and t2: "t2 = tb @ t3"
      by (cases "all_batches E sb") (auto simp: seq_def)
    from before_batch_all_batches [OF ab] have "dispatches ''before_batch'' t3 = length (dl sb)" .
    with tv t2 za zb show ?thesis by simp
  qed
qed

lemma do_epoch_train_unfold:
  "do_epoch_train E s =
     with_events E (all_batches E) ''train'' (is_a CancelTrainException) noop (s\<lparr>dl := dls_train s\<rparr>)"
  by (simp add: do_epoch_train_def seq_def assign_def)

text \<open>
  C4: let the train phase of an epoch raise \<^verbatim>\<open>CancelTrainException\<close> in its
  \<^verbatim>\<open>before_train\<close> call or its batches (\<open>(t2, s2, _)\<close> is the run up to there).
  Then \<^verbatim>\<open>_do_epoch_train\<close> goes on with the \<^verbatim>\<open>after_cancel_train\<close> and
  \<^verbatim>\<open>after_train\<close> calls; when these raise nothing it returns without an exception,
  and \<^verbatim>\<open>_do_epoch\<close> goes on with \<^verbatim>\<open>_do_epoch_validate\<close> from the state the train
  phase left, as it does after every train phase that returns.  A validation that
  returns, with no \<^verbatim>\<open>CancelValidException\<close> raised in it, has dispatched
  \<^verbatim>\<open>before_batch\<close> once for each batch of the data loader that \<^verbatim>\<open>self.dl\<close> names
  when \<^verbatim>\<open>all_batches\<close> starts.
\<close>

theorem validate_after_cancelled_train:
  assumes train: "seq (learner_call E ''before_train'') (all_batches E) (s\<lparr>dl := dls_train s\<rparr>)
                    = (t2, s2, Some (Cancel CancelTrainException))"
  shows "do_epoch_train E s =
           prepend t2 (seq (learner_call E ''after_cancel_train'')
                         (seq (learner_call E ''after_train'') noop) s2)
     \<and> (\<forall>tc sc ta sa.
           learner_call E ''after_cancel_train'' s2 = (tc, sc, None)
           \<and> learner_call E ''after_train'' sc = (ta, sa, None) \<longrightarrow>
           do_epoch_train E s = (t2 @ tc @ ta, sa, None)
           \<and> do_epoch E s = prepend (t2 @ tc @ ta) (do_epoch_validate E sa))
     \<and> (\<forall>t1 s1. do_epoch_train E s = (t1, s1, None) \<longrightarrow>
           do_epoch E s = prepend t1 (do_epoch_validate E s1))
     \<and> (\<forall>s1 tv sv tb sb rb.
           do_epoch_validate E s1 = (tv, sv, None)
           \<and> Raised (Cancel CancelValidException) \<notin> set tv
           \<and> learner_call E ''before_validate'' (s1\<lparr>dl := dls_valid s1\<rparr>) = (tb, sb, rb) \<longrightarrow>
           dispatches ''before_batch'' tv = length (dl sb))"
proof -
  have train': "seq (learner_call E (''before_'' @ ''train'')) (all_batches E) (s\<lparr>dl := dls_train s\<rparr>)
                    = (t2, s2, Some (Cancel CancelTrainException))"
    using train by simp
  have "with_events E (all_batches E) ''train'' (is_a CancelTrainException) noop (s\<lparr>dl := dls_train s\<rparr>)
          = prepend t2 (seq (learner_call E ''after_cancel_train'')
                          (seq (learner_call E ''after_train'') noop) s2)"
    using with_events_cancelled
      [where ex = "is_a CancelTrainException" and final = noop, OF train']
    by (simp add: is_a_def)
  then have tr: "do_epoch_train E s =
           prepend t2 (seq (learner_call E ''after_cancel_train'')
                         (seq (learner_call E ''after_train'') noop) s2)"
    by (simp add: do_epoch_train_unfold)
  have gen: "do_epoch E s = prepend t1 (do_epoch_validate E s1)"
    if "do_epoch_train E s = (t1, s1, None)" for t1 s1
    using that by (simp add: do_epoch_def seq_None)
  have sw: "do_epoch_train E s = (t2 @ tc @ ta, sa, None)
           \<and> do_epoch E s = prepend (t2 @ tc @ ta) (do_epoch_validate E sa)"
    if h: "learner_call E ''after_cancel_train'' s2 = (tc, sc, None)
           \<and> learner_call E ''after_train'' sc = (ta, sa, None)"
    for tc sc ta sa
  proof -
    from h tr have "do_epoch_train E s = (t2 @ tc @ ta, sa, None)"
      by (simp add: seq_None noop_def)
    with gen show ?thesis by simp
  qed
  have cnt: "dispatches ''before_batch'' tv = length (dl sb)"
    if "do_epoch_validate E s1 = (tv, sv, None)
           \<and> Raised (Cancel CancelValidException) \<notin> set tv
           \<and> learner_call E ''before_validate'' (s1\<lparr>dl := dls_valid s1\<rparr>) = (tb, sb, rb)"
    for s1 tv sv tb sb rb
    using that validate_all_batches [of E s1 tv sv tb sb rb] by blast
  from tr sw gen cnt show ?thesis by blast
qed

theorem validate_after_cancelled_train_witness:
  "snd (snd (seq (learner_call (example_env cancel_train_on_before_batch) ''before_train'')
               (all_batches (example_env cancel_train_on_before_batch))
               (example_learner\<lparr>dl := dls_train example_learner\<rparr>)))
     = Some (Cancel CancelTrainException)
   \<and> snd (snd (do_epoch_train (example_env cancel_train_on_before_batch) example_learner)) = None
   \<and> dispatches ''before_batch''
       (fst (do_epoch_train (example_env cancel_train_on_before_batch) example_learner)) = 1
   \<and> fst (do_epoch (example_env cancel_train_on_before_batch) example_learner)
       = fst (do_epoch_train (example_env cancel_train_on_before_batch) example_learner)
         @ fst (do_epoch_validate (example_env cancel_train_on_before_batch)
                 (fst (snd (do_epoch_train (example_env cancel_train_on_before_batch)
                              example_learner))))
   \<and> dispatches ''before_batch''
       (fst (do_epoch_validate (example_env cancel_train_on_before_batch)
               (fst (snd (do_epoch_train (example_env cancel_train_on_before_batch)
                            example_learner))))) = 2
   \<and> length (dls_train example_learner) = 2
   \<and> length (dls_valid example_learner) = 2"
proof -
  let ?E = "example_env cancel_train_on_before_batch"
  let ?r2 = "seq (learner_call ?E ''before_train'') (all_batches ?E)
               (example_learner\<lparr>dl := dls_train example_learner\<rparr>)"
  let ?rc = "learner_call ?E ''after_cancel_train'' (fst (snd ?r2))"
  let ?ra = "learner_call ?E ''after_train'' (fst (snd ?rc))"
  let ?sa = "fst (snd ?ra)"
  let ?rv = "do_epoch_validate ?E ?sa"
  let ?rb = "learner_call ?E ''before_validate'' (?sa\<lparr>dl := dls_valid ?sa\<rparr>)"
  have r2: "snd (snd ?r2) = Some (Cancel CancelTrainException)" by code_simp
  have rc: "snd (snd ?rc) = None" by code_simp
  have ra: "snd (snd ?ra) = None" by code_simp
  have rv: "snd (snd ?rv) = None" by code_simp
  have nv: "Raised (Cancel CancelValidException) \<notin> set (fst ?rv)" by code_simp
  have lb: "length (dl (fst (snd ?rb))) = 2" by code_simp
  have b1: "dispatches ''before_batch'' (fst ?r2 @ fst ?rc @ fst ?ra) = 1" by code_simp
  have lv: "length (dls_train example_learner) = 2" "length (dls_valid example_learner) = 2"
    by (simp_all add: example_learner_def)
  have rb: "?rb = (fst ?rb, fst (snd ?rb), snd (snd ?rb))" by simp
  note v = validate_after_cancelled_train [OF triple_eq [OF r2]]
  from v triple_eq [OF rc] triple_eq [OF ra]
  have tr: "do_epoch_train ?E example_learner = (fst ?r2 @ fst ?rc @ fst ?ra, ?sa, None)
            \<and> do_epoch ?E example_learner
                     = prepend (fst ?r2 @ fst ?rc @ fst ?ra) (do_epoch_validate ?E ?sa)"
    by blast
  from v triple_eq [OF rv] nv rb
  have "dispatches ''before_batch'' (fst ?rv) = length (dl (fst (snd ?rb)))"
    by blast
  with lb have cnt: "dispatches ''before_batch'' (fst ?rv) = 2" by simp
  from r2 tr cnt b1 lv show ?thesis by simp
qed

end
